theory Spec2Isabelle
  imports Main "HOL-Library.Sublist"
begin

section \<open>The worklog add command of jira-cli\<close>

text \<open>
  A shallow embedding of \<^verbatim>\<open>internal/cmd/issue/worklog/add/add.go\<close>: the function
  \<^verbatim>\<open>add\<close> that cobra runs and its helpers \<^verbatim>\<open>parseArgsAndFlags\<close>,
  \<^verbatim>\<open>getQuestions\<close>, \<^verbatim>\<open>getNextAction\<close>, \<^verbatim>\<open>isNonInteractive\<close> and
  \<^verbatim>\<open>isMandatoryParamsMissing\<close>. Everything the command does to the outside (reading
  the template, prompting, the HTTP call, printing, opening the browser, leaving the
  process) is recorded as an event, in the order the code performs it.
\<close>

subsection \<open>Data\<close>

type_synonym err = string

text \<open>\<^verbatim>\<open>type addParams struct\<close> (add.go, lines 138-147).\<close>

record addParams =
  issueKey :: string
  comment :: string
  startedDate :: string
  startedTime :: string
  timeSpent :: string
  template :: string
  noInput :: bool
  debug :: bool

text \<open>
  The prompts the command builds: \<^verbatim>\<open>survey.Input{Message, Default}\<close>,
  \<^verbatim>\<open>surveyext.JiraEditor{Editor{Message, Default, HideDefault, AppendDefault}, BlankAllowed}\<close>
  and \<^verbatim>\<open>survey.Select{Message, Options}\<close>; a \<^verbatim>\<open>survey.Question\<close> has a name, a
  prompt and possibly the validator \<^verbatim>\<open>survey.Required\<close>.
\<close>

datatype prompt =
    Input string string
  | JiraEditor string string bool bool bool
  | Select string "string list"

datatype question = Question (qName: string) (qPrompt: prompt) (qRequired: bool)

text \<open>The anonymous answer struct of \<^verbatim>\<open>add\<close> (line 88).\<close>

record answers =
  IssueKey :: string
  Comment :: string
  StartedDate :: string
  StartedTime :: string
  TimeSpent :: string

definition noAnswers :: answers where
  "noAnswers = \<lparr>IssueKey = '''', Comment = '''', StartedDate = '''', StartedTime = '''',
     TimeSpent = ''''\<rparr>"

text \<open>The interface \<^verbatim>\<open>query.FlagParser\<close>: a lookup of a flag by name can fail.\<close>

record flagSet =
  getBool :: "string \<Rightarrow> err + bool"
  getString :: "string \<Rightarrow> err + string"

text \<open>
  What the command consumes from outside, fixed for one invocation: whether standard
  input has data (\<^verbatim>\<open>cmdutil.StdinHasData\<close>), the configuration (\<^verbatim>\<open>viper.GetString\<close>),
  the clock (\<^verbatim>\<open>time.Now\<close>, formatted as a date and as a time of day), the issue key
  normaliser \<^verbatim>\<open>cmdutil.GetJiraIssueKey\<close>, \<^verbatim>\<open>cmdutil.ReadFile\<close>, the answer the prompt
  engine obtains for one question, the HTTP client's \<^verbatim>\<open>AddIssueWorklog\<close> and
  \<^verbatim>\<open>cmdutil.Navigate\<close>. None of these is part of the sources, so they are parameters.
\<close>

record world =
  stdinHasData :: bool
  viperGetString :: "string \<Rightarrow> string"
  nowDate :: string
  nowTime :: string
  getJiraIssueKey :: "string \<Rightarrow> string \<Rightarrow> string"
  readFile :: "string \<Rightarrow> err + string"
  respond :: "question \<Rightarrow> err + string"
  addIssueWorklog :: "string \<Rightarrow> string \<Rightarrow> string \<Rightarrow> string \<Rightarrow> err option"
  navigate :: "string \<Rightarrow> string \<Rightarrow> err option"

text \<open>The effects of one run, in order.\<close>

datatype event =
    Failed string
  | ExitError err
  | ReadFile string
  | Ask "question list"
  | Info string
  | AddIssueWorklog string string string string
  | Success string
  | Printf string
  | Navigate string string

text \<open>
  A piece of the run either leaves the process (\<^verbatim>\<open>cmdutil.Failed\<close> and
  \<^verbatim>\<open>cmdutil.ExitIfError\<close> call \<^verbatim>\<open>os.Exit\<close>) after some events, or returns a value
  after some events.
\<close>

datatype 'a step = Exit "event list" | Continue "event list" 'a

fun trace :: "'a step \<Rightarrow> event list" where
  "trace (Exit evs) = evs"
| "trace (Continue evs x) = evs"

text \<open>
  Modelled from the spec: the exit helpers are not part of the sources; a failure is
  "a non-zero process exit" and a run that returns from the command ends with exit code 0.
\<close>

fun exitCode :: "'a step \<Rightarrow> nat" where
  "exitCode (Exit evs) = 1"
| "exitCode (Continue evs x) = 0"

fun andThen :: "'a step \<Rightarrow> ('a \<Rightarrow> 'b step) \<Rightarrow> 'b step" where
  "andThen (Exit evs) f = Exit evs"
| "andThen (Continue evs x) f =
     (case f x of Exit evs' \<Rightarrow> Exit (evs @ evs') | Continue evs' y \<Rightarrow> Continue (evs @ evs') y)"

text \<open>
  Modelled from the spec: the constants \<^verbatim>\<open>cmdcommon.ActionSubmit\<close> and
  \<^verbatim>\<open>cmdcommon.ActionCancel\<close> are not part of the sources; the gate is "a binary choice
  (submit / cancel)".
\<close>

definition ActionSubmit :: string where
  "ActionSubmit = ''Submit''"

definition ActionCancel :: string where
  "ActionCancel = ''Cancel''"

subsection \<open>The Argument Resolver\<close>

text \<open>\<^verbatim>\<open>parseArgsAndFlags\<close> (lines 149-192). Each read of \<^verbatim>\<open>args[i]\<close> is guarded by
  \<^verbatim>\<open>nargs >= i + 1\<close>; a flag lookup that fails ends the run through
  \<^verbatim>\<open>cmdutil.ExitIfError\<close>, which is the \<open>Inl\<close> result here.\<close>

definition parseArgsAndFlags :: "world \<Rightarrow> string list \<Rightarrow> flagSet \<Rightarrow> err + addParams" where
  "parseArgsAndFlags w args flags =
    (let nargs = length args;
         issueKey' = (if nargs \<ge> 1
                      then getJiraIssueKey w (viperGetString w ''project.key'') (args ! 0)
                      else '''');
         timeSpent' = (if nargs \<ge> 2 then args ! 1 else '''');
         comment' = (if nargs \<ge> 3 then args ! 2 else '''');
         startedDate' = (if nargs \<ge> 4 then args ! 3 else '''');
         startedTime' = (if nargs \<ge> 5 then args ! 4 else '''')
     in case getBool flags ''debug'' of
          Inl e \<Rightarrow> Inl e
        | Inr debug' \<Rightarrow>
            (case getString flags ''template'' of
               Inl e \<Rightarrow> Inl e
             | Inr template' \<Rightarrow>
                 (case getBool flags ''no-input'' of
                    Inl e \<Rightarrow> Inl e
                  | Inr noInput' \<Rightarrow>
                      Inr \<lparr>issueKey = issueKey', comment = comment',
                           startedDate = startedDate', startedTime = startedTime',
                           timeSpent = timeSpent', template = template',
                           noInput = noInput', debug = debug'\<rparr>)))"

subsection \<open>The Interactive Completer\<close>

text \<open>\<^verbatim>\<open>isNonInteractive\<close> (lines 305-307) and \<^verbatim>\<open>isMandatoryParamsMissing\<close>
  (lines 309-311).\<close>

definition isNonInteractive :: "world \<Rightarrow> addParams \<Rightarrow> bool" where
  "isNonInteractive w params = (stdinHasData w \<or> template params = ''-'')"

definition isMandatoryParamsMissing :: "addParams \<Rightarrow> bool" where
  "isMandatoryParamsMissing params = (issueKey params = '''')"

text \<open>The five questions of \<^verbatim>\<open>getQuestions\<close>.\<close>

definition issueKeyQuestion :: question where
  "issueKeyQuestion = Question ''issueKey'' (Input ''Issue key'' '''') True"

definition timeSpentQuestion :: question where
  "timeSpentQuestion = Question ''timeSpent'' (Input ''Worklog time spent'' ''60m'') False"

definition commentQuestion :: question where
  "commentQuestion =
     Question ''comment'' (JiraEditor ''Worklog comment'' ''Implementation'' False True False) False"

definition startedDateQuestion :: "string \<Rightarrow> question" where
  "startedDateQuestion defaultDate =
     Question ''startedDate'' (Input ''Worklog started date (YYYY-MM-DD)'' defaultDate) False"

definition startedTimeQuestion :: "string \<Rightarrow> question" where
  "startedTimeQuestion defaultTime =
     Question ''startedTime'' (Input ''Worklog started time (hh:mm)'' defaultTime) False"

text \<open>
  \<^verbatim>\<open>getQuestions\<close> (lines 220-289). It reads the template or standard input whenever a
  template is named or standard input has data, whatever the comment is; a failed read
  ends the run. Under \<^verbatim>\<open>noInput\<close> with an empty comment it stores the text read as
  the comment and returns early. The receiver's \<^verbatim>\<open>params\<close> is a pointer shared with
  \<^verbatim>\<open>add\<close>, so the record is returned with the questions.
\<close>

definition getQuestions :: "world \<Rightarrow> addParams \<Rightarrow> (question list \<times> addParams) step" where
  "getQuestions w params =
    (let qs0 = (if issueKey params = '''' then [issueKeyQuestion] else []);
         defaultDate = nowDate w;
         defaultTime = nowTime w;
         qs1 = (if timeSpent params = '''' then qs0 @ [timeSpentQuestion] else qs0);
         reads = (template params \<noteq> '''' \<or> stdinHasData w);
         evs = (if reads then [ReadFile (template params)] else [])
     in case (if reads then readFile w (template params) else Inr '''') of
          Inl e \<Rightarrow> Exit (evs @ [Failed (''Error: '' @ e)])
        | Inr defaultBody \<Rightarrow>
            if noInput params \<and> comment params = ''''
            then Continue evs (qs1, params\<lparr>comment := defaultBody\<rparr>)
            else
              (let qs2 = (if comment params = '''' then qs1 @ [commentQuestion] else qs1);
                   qs3 = (if startedDate params = ''''
                          then qs2 @ [startedDateQuestion defaultDate] else qs2);
                   qs4 = (if startedTime params = ''''
                          then qs3 @ [startedTimeQuestion defaultTime] else qs3)
               in Continue evs (qs4, params)))"

text \<open>
  Modelled from the spec: the prompt engine \<^verbatim>\<open>survey.Ask\<close> is not part of the sources.
  It asks the questions in order ("each is its own question", "collect a typed
  answer"), stores each answer in the field of the answer struct that the question's
  name selects, and stops at the first error.
\<close>

definition writeAnswer :: "string \<Rightarrow> string \<Rightarrow> answers \<Rightarrow> err + answers" where
  "writeAnswer name v ans =
    (if name = ''issueKey'' then Inr (ans\<lparr>IssueKey := v\<rparr>)
     else if name = ''comment'' then Inr (ans\<lparr>Comment := v\<rparr>)
     else if name = ''startedDate'' then Inr (ans\<lparr>StartedDate := v\<rparr>)
     else if name = ''startedTime'' then Inr (ans\<lparr>StartedTime := v\<rparr>)
     else if name = ''timeSpent'' then Inr (ans\<lparr>TimeSpent := v\<rparr>)
     else Inl (''could not find field matching '' @ name))"

fun surveyAsk :: "world \<Rightarrow> question list \<Rightarrow> answers \<Rightarrow> err + answers" where
  "surveyAsk w [] ans = Inr ans"
| "surveyAsk w (q # qs) ans =
     (case respond w q of
        Inl e \<Rightarrow> Inl e
      | Inr v \<Rightarrow>
          (case writeAnswer (qName q) v ans of
             Inl e \<Rightarrow> Inl e
           | Inr ans' \<Rightarrow> surveyAsk w qs ans'))"

text \<open>The merge of the answers into the parameters (\<^verbatim>\<open>add\<close>, lines 92-106).\<close>

definition mergeAnswers :: "addParams \<Rightarrow> answers \<Rightarrow> addParams" where
  "mergeAnswers params ans =
    (let p1 = (if issueKey params = '''' then params\<lparr>issueKey := IssueKey ans\<rparr> else params);
         p2 = (if comment p1 = '''' then p1\<lparr>comment := Comment ans\<rparr> else p1);
         p3 = (if startedDate p2 = '''' then p2\<lparr>startedDate := StartedDate ans\<rparr> else p2);
         p4 = (if startedTime p3 = '''' then p3\<lparr>startedTime := StartedTime ans\<rparr> else p3);
         p5 = (if timeSpent p4 = '''' then p4\<lparr>timeSpent := TimeSpent ans\<rparr> else p4)
     in p5)"

text \<open>The Completer phase of \<^verbatim>\<open>add\<close> (lines 86-107): the questions, the prompts when
  there is a question, the merge.\<close>

definition completer :: "world \<Rightarrow> addParams \<Rightarrow> addParams step" where
  "completer w params =
    andThen (getQuestions w params) (\<lambda>(qs, params').
      if length qs > 0
      then (case surveyAsk w qs noAnswers of
              Inl e \<Rightarrow> Exit [Ask qs, ExitError e]
            | Inr ans \<Rightarrow> Continue [Ask qs] (mergeAnswers params' ans))
      else Continue [] params')"

subsection \<open>The Confirmation Gate\<close>

text \<open>\<^verbatim>\<open>getNextAction\<close> (lines 291-303) and the gate of \<^verbatim>\<open>add\<close> (lines 109-117).\<close>

definition getNextAction :: question where
  "getNextAction = Question ''action'' (Select ''What's next?'' [ActionSubmit, ActionCancel]) True"

definition gate :: "world \<Rightarrow> addParams \<Rightarrow> unit step" where
  "gate w params =
    (if \<not> noInput params
     then (case respond w getNextAction of
             Inl e \<Rightarrow> Exit [Ask [getNextAction], ExitError e]
           | Inr action \<Rightarrow>
               if action = ActionCancel
               then Exit [Ask [getNextAction], Failed ''Action aborted'']
               else Continue [Ask [getNextAction]] ())
     else Continue [] ())"

subsection \<open>The Submitter\<close>

text \<open>The timestamp and the call of \<^verbatim>\<open>add\<close> (line 123).\<close>

definition startedStamp :: "addParams \<Rightarrow> string" where
  "startedStamp params = startedDate params @ ''T'' @ startedTime params @ '':00.000+0100''"

definition worklogCall :: "addParams \<Rightarrow> event" where
  "worklogCall params =
     AddIssueWorklog (issueKey params) (comment params) (startedStamp params) (timeSpent params)"

text \<open>The rest of \<^verbatim>\<open>add\<close> (lines 119-135). The error of the lookup of the flag
  \<^verbatim>\<open>web\<close> is dropped by the code, which then reads \<^verbatim>\<open>false\<close>.\<close>

definition submit :: "world \<Rightarrow> flagSet \<Rightarrow> addParams \<Rightarrow> unit step" where
  "submit w flags params =
    (case addIssueWorklog w (issueKey params) (comment params) (startedStamp params)
            (timeSpent params) of
       Some e \<Rightarrow> Exit [Info ''Adding worklog'', worklogCall params, ExitError e]
     | None \<Rightarrow>
         (let server = viperGetString w ''server'';
              out = [Info ''Adding worklog'', worklogCall params,
                     Success (''Worklog added to issue '' @ [CHR 0x22] @ issueKey params @ [CHR 0x22]),
                     Printf (server @ ''/browse/'' @ issueKey params @ [CHR 0x0A])]
          in if getBool flags ''web'' = Inr True
             then (case navigate w server (issueKey params) of
                     Some e \<Rightarrow> Exit (out @ [Navigate server (issueKey params), ExitError e])
                   | None \<Rightarrow> Continue (out @ [Navigate server (issueKey params)]) ())
             else Continue out ()))"

subsection \<open>The command\<close>

text \<open>The parameters as \<^verbatim>\<open>add\<close> holds them after lines 76-78: non-interactive mode
  sets \<^verbatim>\<open>noInput\<close>.\<close>

definition enter :: "world \<Rightarrow> addParams \<Rightarrow> addParams" where
  "enter w params = (if isNonInteractive w params then params\<lparr>noInput := True\<rparr> else params)"

definition mandatoryMessage :: string where
  "mandatoryMessage = ''`ISSUE-KEY` is mandatory when using a non-interactive mode''"

text \<open>\<^verbatim>\<open>add\<close> (lines 67-136).\<close>

definition add :: "world \<Rightarrow> flagSet \<Rightarrow> string list \<Rightarrow> unit step" where
  "add w flags args =
    (case parseArgsAndFlags w args flags of
       Inl e \<Rightarrow> Exit [ExitError e]
     | Inr params \<Rightarrow>
         if isNonInteractive w params \<and> isMandatoryParamsMissing (enter w params)
         then Exit [Failed mandatoryMessage]
         else andThen (completer w (enter w params)) (\<lambda>params'.
                andThen (gate w params') (\<lambda>_. submit w flags params')))"

subsection \<open>Notions used to state the properties\<close>

text \<open>The five positional fields of the parameter record, in the order of the
  command line, and the argument list with its first item normalised as
  \<^verbatim>\<open>parseArgsAndFlags\<close> does.\<close>

definition positional :: "addParams \<Rightarrow> string list" where
  "positional params =
     [issueKey params, timeSpent params, comment params, startedDate params, startedTime params]"

definition resolvedArgs :: "world \<Rightarrow> string list \<Rightarrow> string list" where
  "resolvedArgs w args =
     (case args of [] \<Rightarrow> []
      | a # as \<Rightarrow> getJiraIssueKey w (viperGetString w ''project.key'') a # as)"

text \<open>The names of the questions in the order the spec gives for the prompts, and the
  field of the parameters and of the answers that a name selects.\<close>

definition promptOrder :: "string list" where
  "promptOrder = [''issueKey'', ''timeSpent'', ''comment'', ''startedDate'', ''startedTime'']"

definition fieldValue :: "addParams \<Rightarrow> string \<Rightarrow> string" where
  "fieldValue params name =
    (if name = ''issueKey'' then issueKey params
     else if name = ''timeSpent'' then timeSpent params
     else if name = ''comment'' then comment params
     else if name = ''startedDate'' then startedDate params
     else if name = ''startedTime'' then startedTime params
     else '''')"

definition answerValue :: "answers \<Rightarrow> string \<Rightarrow> string" where
  "answerValue ans name =
    (if name = ''issueKey'' then IssueKey ans
     else if name = ''timeSpent'' then TimeSpent ans
     else if name = ''comment'' then Comment ans
     else if name = ''startedDate'' then StartedDate ans
     else if name = ''startedTime'' then StartedTime ans
     else '''')"

text \<open>Kinds of events: the worklog-creation call, the output that follows a successful
  call (confirmation line, browse URL, browser), a prompt.\<close>

fun isCall :: "event \<Rightarrow> bool" where
  "isCall (AddIssueWorklog k b s t) = True"
| "isCall _ = False"

fun isSuccessOutput :: "event \<Rightarrow> bool" where
  "isSuccessOutput (Success m) = True"
| "isSuccessOutput (Printf m) = True"
| "isSuccessOutput (Navigate s k) = True"
| "isSuccessOutput _ = False"

fun isAsk :: "event \<Rightarrow> bool" where
  "isAsk (Ask qs) = True"
| "isAsk _ = False"

subsection \<open>Sample invocations\<close>

text \<open>
  Modelled from the spec: \<^verbatim>\<open>cmdutil.GetJiraIssueKey\<close> is not part of the sources; "if a
  bare numeric/short key is given, it is combined with a configured default project
  prefix to form a full issue key". Used by the sample invocations only; the theorems hold
  for every normaliser.
\<close>

definition prefixIssueKey :: "string \<Rightarrow> string \<Rightarrow> string" where
  "prefixIssueKey project key =
     (if project \<noteq> '''' \<and> key \<noteq> '''' \<and> list_all (\<lambda>c. c \<in> set ''0123456789'') key
      then project @ ''-'' @ key else key)"

definition sampleConfig :: "string \<Rightarrow> string" where
  "sampleConfig key =
     (if key = ''project.key'' then ''PROJ''
      else if key = ''server'' then ''https://jira.example.com''
      else '''')"

definition sampleFiles :: "string \<Rightarrow> err + string" where
  "sampleFiles path =
     (if path = ''/tmp/worklog.tmpl'' then Inr ''From template''
      else Inl (''open '' @ path @ '': no such file or directory''))"

definition sampleAnswer :: "question \<Rightarrow> err + string" where
  "sampleAnswer q =
     (if qName q = ''issueKey'' then Inr ''PROJ-7''
      else if qName q = ''timeSpent'' then Inr ''60m''
      else if qName q = ''comment'' then Inr ''Implementation''
      else if qName q = ''startedDate'' then Inr ''2023-01-01''
      else if qName q = ''startedTime'' then Inr ''09:00''
      else if qName q = ''action'' then Inr ActionSubmit
      else Inl ''unexpected question'')"

text \<open>A run at a terminal (nothing on standard input), and a run with
  \<^verbatim>\<open>Fixed bug\<close> piped in.\<close>

definition terminal :: world where
  "terminal = \<lparr>stdinHasData = False, viperGetString = sampleConfig,
     nowDate = ''2023-01-01'', nowTime = ''09:00'', getJiraIssueKey = prefixIssueKey,
     readFile = sampleFiles, respond = sampleAnswer,
     addIssueWorklog = (\<lambda>k b s t. None), navigate = (\<lambda>s k. None)\<rparr>"

definition piped :: world where
  "piped = terminal\<lparr>stdinHasData := True,
     readFile := (\<lambda>path. if path = '''' \<or> path = ''-'' then Inr ''Fixed bug''
                          else sampleFiles path)\<rparr>"

text \<open>The flags of a command line: the values of \<^verbatim>\<open>--template\<close>,
  \<^verbatim>\<open>--no-input\<close> and \<^verbatim>\<open>--web\<close>, with \<^verbatim>\<open>--debug\<close> off; any other name is not a
  flag of the command.\<close>

definition cliFlags :: "string \<Rightarrow> bool \<Rightarrow> bool \<Rightarrow> flagSet" where
  "cliFlags templateFlag noInputFlag webFlag =
     \<lparr>getBool = (\<lambda>name. if name = ''debug'' then Inr False
                        else if name = ''no-input'' then Inr noInputFlag
                        else if name = ''web'' then Inr webFlag
                        else Inl (''flag accessed but not defined: '' @ name)),
      getString = (\<lambda>name. if name = ''template'' then Inr templateFlag
                        else Inl (''flag accessed but not defined: '' @ name))\<rparr>"

text \<open>The argument list of the scenario of the spec, and the records that
  \<^verbatim>\<open>parseArgsAndFlags\<close> returns in the sample runs below.\<close>

definition fullArgs :: "string list" where
  "fullArgs = [''PROJ-1'', ''2h'', ''Did work'', ''2023-01-01'', ''09:00'']"

definition keyOnlyParams :: addParams where
  "keyOnlyParams = \<lparr>issueKey = ''PROJ-1'', comment = '''', startedDate = '''', startedTime = '''',
     timeSpent = '''', template = '''', noInput = False, debug = False\<rparr>"

text \<open>A terminal run against a server that rejects the call.\<close>

definition rejecting :: world where
  "rejecting = terminal\<lparr>addIssueWorklog := (\<lambda>k b s t. Some ''401 Unauthorized'')\<rparr>"

definition pipedParams :: addParams where
  "pipedParams = \<lparr>issueKey = ''PROJ-1'', comment = '''', startedDate = '''', startedTime = '''',
     timeSpent = ''2h'', template = '''', noInput = False, debug = False\<rparr>"

text \<open>A terminal run in which the user chooses Cancel at the gate.\<close>

definition cancelling :: world where
  "cancelling = terminal\<lparr>respond :=
     (\<lambda>q. if qName q = ''action'' then Inr ActionCancel else sampleAnswer q)\<rparr>"

definition fullParams :: addParams where
  "fullParams = \<lparr>issueKey = ''PROJ-1'', comment = ''Did work'', startedDate = ''2023-01-01'',
     startedTime = ''09:00'', timeSpent = ''2h'', template = '''', noInput = False, debug = False\<rparr>"

definition templateParams :: "string \<Rightarrow> addParams" where
  "templateParams t = \<lparr>issueKey = ''PROJ-1'', comment = ''Did work'', startedDate = ''2023-01-01'',
     startedTime = ''09:00'', timeSpent = ''2h'', template = t, noInput = False, debug = False\<rparr>"

definition noInputParams :: addParams where
  "noInputParams = \<lparr>issueKey = ''PROJ-1'', comment = ''Did work'', startedDate = '''',
     startedTime = '''', timeSpent = ''2h'', template = '''', noInput = True, debug = False\<rparr>"

section \<open>Properties\<close>

subsection \<open>The Argument Resolver\<close>

lemma short_list:
  "length (xs :: 'a list) \<le> 5 \<Longrightarrow>
     xs = [] \<or> (\<exists>a. xs = [a]) \<or> (\<exists>a b. xs = [a, b]) \<or> (\<exists>a b c. xs = [a, b, c]) \<or>
     (\<exists>a b c d. xs = [a, b, c, d]) \<or> (\<exists>a b c d e. xs = [a, b, c, d, e])"
  by (auto simp: numeral_eq_Suc le_Suc_eq length_Suc_conv)

text \<open>
  Claim C3. For an argument list of length \<open>n\<close> between 0 and 5 (and flags that can be
  read), \<^verbatim>\<open>parseArgsAndFlags\<close> returns a record whose positional fields, in the order
  issue key, time spent, comment, started date, started time, are the \<open>n\<close> arguments (the
  first one normalised into an issue key) followed by \<open>5 - n\<close> empty strings: exactly the
  first \<open>n\<close> fields are set from the arguments and every later field is empty.
\<close>

theorem parseArgsAndFlags_positional:
  assumes "getBool flags ''debug'' = Inr d"
    and "getString flags ''template'' = Inr t"
    and "getBool flags ''no-input'' = Inr n"
    and "length args \<le> 5"
  shows "\<exists>params. parseArgsAndFlags w args flags = Inr params \<and>
     positional params = resolvedArgs w args @ replicate (5 - length args) '''' \<and>
     template params = t \<and> noInput params = n \<and> debug params = d"
  using short_list [OF assms(4)] assms(1-3)
  by (auto simp: parseArgsAndFlags_def Let_def positional_def resolvedArgs_def numeral_eq_Suc)

theorem parseArgsAndFlags_positional_witness:
  "getBool (cliFlags '''' False False) ''debug'' = Inr False \<and>
   getString (cliFlags '''' False False) ''template'' = Inr '''' \<and>
   getBool (cliFlags '''' False False) ''no-input'' = Inr False \<and>
   length [''7'', ''2h''] \<le> 5 \<and>
   map_sum id positional (parseArgsAndFlags terminal [''7'', ''2h''] (cliFlags '''' False False)) =
     Inr [''PROJ-7'', ''2h'', '''', '''', '''']"
proof -
  have h1: "getBool (cliFlags '''' False False) ''debug'' = Inr False"
    and h2: "getString (cliFlags '''' False False) ''template'' = Inr ''''"
    and h3: "getBool (cliFlags '''' False False) ''no-input'' = Inr False"
    by (simp_all add: cliFlags_def)
  have h4: "length [''7'', ''2h''] \<le> 5" by simp
  have r: "resolvedArgs terminal [''7'', ''2h''] = [''PROJ-7'', ''2h'']"
    by (simp add: resolvedArgs_def terminal_def sampleConfig_def prefixIssueKey_def)
  from parseArgsAndFlags_positional [OF h1 h2 h3 h4, of terminal]
  obtain params where "parseArgsAndFlags terminal [''7'', ''2h''] (cliFlags '''' False False) = Inr params"
    and "positional params = resolvedArgs terminal [''7'', ''2h''] @ replicate (5 - length [''7'', ''2h'']) ''''"
    by blast
  then have "map_sum id positional (parseArgsAndFlags terminal [''7'', ''2h''] (cliFlags '''' False False)) =
     Inr [''PROJ-7'', ''2h'', '''', '''', '''']"
    by (simp add: r numeral_eq_Suc)
  with h1 h2 h3 h4 show ?thesis by blast
qed

subsection \<open>Steps and traces\<close>

lemma trace_andThen:
  "trace (andThen s f) = trace s @ (case s of Exit evs \<Rightarrow> [] | Continue evs x \<Rightarrow> trace (f x))"
  by (cases s) (auto split: step.splits)

lemma exitCode_andThen:
  "exitCode (andThen s f) = (case s of Exit evs \<Rightarrow> 1 | Continue evs x \<Rightarrow> exitCode (f x))"
  by (cases s) (auto split: step.splits)

subsection \<open>The questions\<close>

lemma qName_simps:
  "qName issueKeyQuestion = ''issueKey''"
  "qName timeSpentQuestion = ''timeSpent''"
  "qName commentQuestion = ''comment''"
  "qName (startedDateQuestion d) = ''startedDate''"
  "qName (startedTimeQuestion t) = ''startedTime''"
  by (simp_all add: issueKeyQuestion_def timeSpentQuestion_def commentQuestion_def
      startedDateQuestion_def startedTimeQuestion_def)

lemma fieldValue_simps:
  "fieldValue params ''issueKey'' = issueKey params"
  "fieldValue params ''timeSpent'' = timeSpent params"
  "fieldValue params ''comment'' = comment params"
  "fieldValue params ''startedDate'' = startedDate params"
  "fieldValue params ''startedTime'' = startedTime params"
  by (simp_all add: fieldValue_def)

lemma answerValue_simps:
  "answerValue ans ''issueKey'' = IssueKey ans"
  "answerValue ans ''timeSpent'' = TimeSpent ans"
  "answerValue ans ''comment'' = Comment ans"
  "answerValue ans ''startedDate'' = StartedDate ans"
  "answerValue ans ''startedTime'' = StartedTime ans"
  by (simp_all add: answerValue_def)

lemma promptOrder_mem:
  "''issueKey'' \<in> set promptOrder" "''timeSpent'' \<in> set promptOrder"
  "''comment'' \<in> set promptOrder" "''startedDate'' \<in> set promptOrder"
  "''startedTime'' \<in> set promptOrder"
  by (simp_all add: promptOrder_def)

lemma getQuestions_Continue:
  assumes "getQuestions w params = Continue evs (qs, p)"
  shows "qs = (if issueKey params = '''' then [issueKeyQuestion] else []) @
              (if timeSpent params = '''' then [timeSpentQuestion] else []) @
              (if noInput params \<and> comment params = '''' then []
               else (if comment params = '''' then [commentQuestion] else []) @
                    (if startedDate params = '''' then [startedDateQuestion (nowDate w)] else []) @
                    (if startedTime params = '''' then [startedTimeQuestion (nowTime w)] else []))"
  using assms
  by (auto simp: getQuestions_def Let_def split: sum.splits if_splits)

lemma getQuestions_names:
  assumes "getQuestions w params = Continue evs (qs, p)"
  shows "map qName qs = filter (\<lambda>n. fieldValue params n = '''' \<and>
            (n = ''issueKey'' \<or> n = ''timeSpent'' \<or> \<not> (noInput params \<and> comment params = '''')))
          promptOrder"
  unfolding getQuestions_Continue [OF assms] promptOrder_def
  by (simp add: qName_simps fieldValue_simps)

lemma getQuestions_asked:
  assumes "getQuestions w params = Continue evs (qs, p)"
  shows "n \<in> qName ` set qs \<longleftrightarrow>
     n \<in> set promptOrder \<and> fieldValue params n = '''' \<and>
       (n = ''issueKey'' \<or> n = ''timeSpent'' \<or> \<not> (noInput params \<and> comment params = ''''))"
proof -
  have "qName ` set qs = set (map qName qs)" by simp
  then show ?thesis unfolding getQuestions_names [OF assms] by auto
qed

lemma getQuestions_trace:
  "trace (getQuestions w params) =
     (if template params \<noteq> '''' \<or> stdinHasData w
      then (case readFile w (template params) of
              Inl e \<Rightarrow> [ReadFile (template params), Failed (''Error: '' @ e)]
            | Inr b \<Rightarrow> [ReadFile (template params)])
      else [])"
  by (simp add: getQuestions_def Let_def split: sum.splits)

lemma getQuestions_quiet:
  "ev \<in> set (trace (getQuestions w params)) \<Longrightarrow>
     ev = ReadFile (template params) \<or> (\<exists>m. ev = Failed m)"
  by (auto simp: getQuestions_trace split: sum.splits if_splits)

lemma getQuestions_fields:
  assumes "getQuestions w params = Continue evs (qs, p)"
  shows "issueKey p = issueKey params" "timeSpent p = timeSpent params"
    "startedDate p = startedDate params" "startedTime p = startedTime params"
    "template p = template params" "noInput p = noInput params" "debug p = debug params"
    "comment params \<noteq> '''' \<Longrightarrow> comment p = comment params"
    "\<not> noInput params \<Longrightarrow> comment p = comment params"
  using assms [symmetric]
  by (simp_all add: getQuestions_def Let_def split: sum.splits if_splits)

subsection \<open>The prompt engine and the merge\<close>

lemma writeAnswer_value:
  assumes "writeAnswer name v a = Inr a'"
  shows "answerValue a' n = (if n = name then v else answerValue a n)"
  using assms [symmetric]
  by (simp add: writeAnswer_def answerValue_def split: if_splits)

lemma surveyAsk_value:
  assumes "surveyAsk w qs a = Inr ans"
    and "\<forall>q v. respond w q = Inr v \<longrightarrow> v \<noteq> ''''"
  shows "if n \<in> qName ` set qs then answerValue ans n \<noteq> '''' else answerValue ans n = answerValue a n"
  using assms(1)
proof (induction qs arbitrary: a)
  case Nil
  then show ?case by simp
next
  case (Cons q qs)
  from Cons.prems obtain v a' where v: "respond w q = Inr v"
    and a': "writeAnswer (qName q) v a = Inr a'" and rest: "surveyAsk w qs a' = Inr ans"
    by (auto split: sum.splits)
  have "v \<noteq> ''''" using v assms(2) by blast
  then show ?case
    using Cons.IH [OF rest] writeAnswer_value [OF a', of n] by (auto split: if_splits)
qed

lemma mergeAnswers_fields:
  "issueKey (mergeAnswers params ans) = (if issueKey params = '''' then IssueKey ans else issueKey params)"
  "timeSpent (mergeAnswers params ans) = (if timeSpent params = '''' then TimeSpent ans else timeSpent params)"
  "comment (mergeAnswers params ans) = (if comment params = '''' then Comment ans else comment params)"
  "startedDate (mergeAnswers params ans) = (if startedDate params = '''' then StartedDate ans else startedDate params)"
  "startedTime (mergeAnswers params ans) = (if startedTime params = '''' then StartedTime ans else startedTime params)"
  "template (mergeAnswers params ans) = template params"
  "noInput (mergeAnswers params ans) = noInput params"
  "debug (mergeAnswers params ans) = debug params"
  by (simp_all add: mergeAnswers_def Let_def)

subsection \<open>The phases of the command\<close>

lemma completer_unfold:
  "completer w params =
     (case getQuestions w params of
        Exit evs \<Rightarrow> Exit evs
      | Continue evs (qs, p) \<Rightarrow>
          if qs = [] then Continue evs p
          else (case surveyAsk w qs noAnswers of
                  Inl e \<Rightarrow> Exit (evs @ [Ask qs, ExitError e])
                | Inr ans \<Rightarrow> Continue (evs @ [Ask qs]) (mergeAnswers p ans)))"
  by (simp add: completer_def split: step.splits sum.splits prod.splits)

lemma completer_trace:
  "trace (completer w params) =
     trace (getQuestions w params) @
       (case getQuestions w params of
          Exit evs \<Rightarrow> []
        | Continue evs (qs, p) \<Rightarrow>
            if qs = [] then []
            else Ask qs # (case surveyAsk w qs noAnswers of Inl e \<Rightarrow> [ExitError e] | Inr ans \<Rightarrow> []))"
  by (simp add: completer_unfold split: step.splits sum.splits prod.splits)

lemma completer_Continue:
  assumes "completer w params = Continue evs p'"
  obtains e1 qs p where "getQuestions w params = Continue e1 (qs, p)"
    and "qs = [] \<Longrightarrow> p' = p \<and> evs = e1"
    and "qs \<noteq> [] \<Longrightarrow> \<exists>ans. surveyAsk w qs noAnswers = Inr ans \<and> p' = mergeAnswers p ans \<and> evs = e1 @ [Ask qs]"
proof (cases "getQuestions w params")
  case (Exit e)
  then show ?thesis using assms by (simp add: completer_unfold)
next
  case (Continue e1 r)
  obtain qs p where r: "r = (qs, p)" by (cases r)
  show ?thesis
  proof (rule that [of e1 qs p])
    show "getQuestions w params = Continue e1 (qs, p)" using Continue r by simp
    show "p' = p \<and> evs = e1" if "qs = []"
      using assms [symmetric] Continue r that by (simp add: completer_unfold)
    show "\<exists>ans. surveyAsk w qs noAnswers = Inr ans \<and> p' = mergeAnswers p ans \<and> evs = e1 @ [Ask qs]"
      if "qs \<noteq> []"
      using assms [symmetric] Continue r that
      by (cases "surveyAsk w qs noAnswers") (simp_all add: completer_unfold)
  qed
qed

lemma completer_events:
  assumes "ev \<in> set (trace (completer w params))"
  shows "ev = ReadFile (template params) \<or> (\<exists>m. ev = Failed m) \<or> (\<exists>e. ev = ExitError e) \<or>
         (\<exists>qs evs p. ev = Ask qs \<and> qs \<noteq> [] \<and> getQuestions w params = Continue evs (qs, p))"
proof (cases "getQuestions w params")
  case (Exit evs)
  then show ?thesis
    using assms getQuestions_quiet [of ev w params] by (auto simp: completer_trace)
next
  case (Continue evs r)
  obtain qs p where r: "r = (qs, p)" by (cases r)
  show ?thesis
  proof (cases "qs = []")
    case True
    then show ?thesis
      using assms Continue r getQuestions_quiet [of ev w params] by (auto simp: completer_trace)
  next
    case False
    then show ?thesis
      using assms Continue r getQuestions_quiet [of ev w params]
      by (cases "surveyAsk w qs noAnswers") (auto simp: completer_trace)
  qed
qed

lemma completer_quiet:
  "ev \<in> set (trace (completer w params)) \<Longrightarrow> \<not> isCall ev \<and> \<not> isSuccessOutput ev"
  using completer_events [of ev w params] by auto

lemma gate_trace:
  "trace (gate w p) =
     (if noInput p then []
      else Ask [getNextAction] #
        (case respond w getNextAction of
           Inl e \<Rightarrow> [ExitError e]
         | Inr a \<Rightarrow> if a = ActionCancel then [Failed ''Action aborted''] else []))"
  by (simp add: gate_def split: sum.splits)

lemma gate_quiet:
  "ev \<in> set (trace (gate w params)) \<Longrightarrow> \<not> isCall ev \<and> \<not> isSuccessOutput ev"
  by (auto simp: gate_trace split: sum.splits if_splits)

lemma submit_trace:
  "trace (submit w flags p) =
     Info ''Adding worklog'' # worklogCall p #
       (case addIssueWorklog w (issueKey p) (comment p) (startedStamp p) (timeSpent p) of
          Some e \<Rightarrow> [ExitError e]
        | None \<Rightarrow>
            Success (''Worklog added to issue '' @ [CHR 0x22] @ issueKey p @ [CHR 0x22]) #
            Printf (viperGetString w ''server'' @ ''/browse/'' @ issueKey p @ [CHR 0x0A]) #
            (if getBool flags ''web'' = Inr True
             then Navigate (viperGetString w ''server'') (issueKey p) #
                    (case navigate w (viperGetString w ''server'') (issueKey p) of
                       Some e \<Rightarrow> [ExitError e] | None \<Rightarrow> [])
             else []))"
  by (simp add: submit_def Let_def split: option.splits)

lemma add_abort:
  assumes "parseArgsAndFlags w args flags = Inr p0"
    and "isNonInteractive w p0" "issueKey p0 = ''''"
  shows "add w flags args = Exit [Failed mandatoryMessage]"
  using assms by (simp add: add_def isMandatoryParamsMissing_def enter_def)

lemma add_unfold:
  assumes "parseArgsAndFlags w args flags = Inr p0"
    and "\<not> (isNonInteractive w p0 \<and> issueKey p0 = '''')"
  shows "add w flags args =
     andThen (completer w (enter w p0)) (\<lambda>p. andThen (gate w p) (\<lambda>u. submit w flags p))"
  using assms
  by (auto simp: add_def isMandatoryParamsMissing_def enter_def)

lemma add_trace:
  assumes "parseArgsAndFlags w args flags = Inr p0"
    and "\<not> (isNonInteractive w p0 \<and> issueKey p0 = '''')"
  shows "trace (add w flags args) =
     trace (completer w (enter w p0)) @
       (case completer w (enter w p0) of
          Exit evs \<Rightarrow> []
        | Continue evs p \<Rightarrow>
            trace (gate w p) @
              (case gate w p of Exit g \<Rightarrow> [] | Continue g u \<Rightarrow> trace (submit w flags p)))"
  by (simp add: add_unfold [OF assms] trace_andThen split: step.splits)

lemma add_call:
  assumes "parseArgsAndFlags w args flags = Inr p0"
    and "ev \<in> set (trace (add w flags args))" and "isCall ev"
  shows "\<not> (isNonInteractive w p0 \<and> issueKey p0 = '''') \<and>
         (\<exists>evs p. completer w (enter w p0) = Continue evs p \<and> ev = worklogCall p)"
proof -
  have ni: "\<not> (isNonInteractive w p0 \<and> issueKey p0 = '''')"
    using assms add_abort [OF assms(1)] by auto
  show ?thesis
  proof (cases "completer w (enter w p0)")
    case (Exit evs)
    then show ?thesis
      using assms(2,3) completer_quiet [of ev w "enter w p0"]
      by (simp add: add_trace [OF assms(1) ni])
  next
    case (Continue evs p)
    have "ev \<in> set (trace (submit w flags p))"
      using assms(2,3) Continue completer_quiet [of ev w "enter w p0"] gate_quiet [of ev w p]
      by (auto simp: add_trace [OF assms(1) ni] split: step.splits)
    then have "ev = worklogCall p"
      using assms(3) by (auto simp: submit_trace split: option.splits if_splits)
    with ni Continue show ?thesis by simp
  qed
qed

lemma completer_nonempty:
  assumes c: "completer w params = Continue evs p'"
    and r: "\<forall>q v. respond w q = Inr v \<longrightarrow> v \<noteq> ''''"
  shows "issueKey p' \<noteq> '''' \<and> timeSpent p' \<noteq> '''' \<and>
    (\<not> noInput params \<longrightarrow> comment p' \<noteq> '''' \<and> startedDate p' \<noteq> '''' \<and> startedTime p' \<noteq> '''')"
proof -
  from c obtain e1 qs p where g: "getQuestions w params = Continue e1 (qs, p)"
    and empty: "qs = [] \<Longrightarrow> p' = p \<and> evs = e1"
    and asks: "qs \<noteq> [] \<Longrightarrow> \<exists>ans. surveyAsk w qs noAnswers = Inr ans \<and> p' = mergeAnswers p ans \<and> evs = e1 @ [Ask qs]"
    by (rule completer_Continue) blast
  note f = getQuestions_fields [OF g]
  note asked = getQuestions_asked [OF g]
  have k1: "issueKey p = '''' \<Longrightarrow> ''issueKey'' \<in> qName ` set qs"
    using f(1) by (simp add: asked promptOrder_mem fieldValue_simps)
  have k2: "timeSpent p = '''' \<Longrightarrow> ''timeSpent'' \<in> qName ` set qs"
    using f(2) by (simp add: asked promptOrder_mem fieldValue_simps)
  have k3: "\<not> noInput params \<Longrightarrow> comment p = '''' \<Longrightarrow> ''comment'' \<in> qName ` set qs"
    using f(9) by (simp add: asked promptOrder_mem fieldValue_simps)
  have k4: "\<not> noInput params \<Longrightarrow> startedDate p = '''' \<Longrightarrow> ''startedDate'' \<in> qName ` set qs"
    using f(3) by (simp add: asked promptOrder_mem fieldValue_simps)
  have k5: "\<not> noInput params \<Longrightarrow> startedTime p = '''' \<Longrightarrow> ''startedTime'' \<in> qName ` set qs"
    using f(4) by (simp add: asked promptOrder_mem fieldValue_simps)
  show ?thesis
  proof (cases "qs = []")
    case True
    then have p': "p' = p" using empty by simp
    show ?thesis using k1 k2 k3 k4 k5 True unfolding p' by auto
  next
    case False
    then obtain ans where a: "surveyAsk w qs noAnswers = Inr ans" and p': "p' = mergeAnswers p ans"
      using asks by blast
    note v = surveyAsk_value [OF a r]
    have a1: "issueKey p = '''' \<Longrightarrow> IssueKey ans \<noteq> ''''"
      using v [of "''issueKey''"] k1 by (simp add: answerValue_simps)
    have a2: "timeSpent p = '''' \<Longrightarrow> TimeSpent ans \<noteq> ''''"
      using v [of "''timeSpent''"] k2 by (simp add: answerValue_simps)
    have a3: "\<not> noInput params \<Longrightarrow> comment p = '''' \<Longrightarrow> Comment ans \<noteq> ''''"
      using v [of "''comment''"] k3 by (simp add: answerValue_simps)
    have a4: "\<not> noInput params \<Longrightarrow> startedDate p = '''' \<Longrightarrow> StartedDate ans \<noteq> ''''"
      using v [of "''startedDate''"] k4 by (simp add: answerValue_simps)
    have a5: "\<not> noInput params \<Longrightarrow> startedTime p = '''' \<Longrightarrow> StartedTime ans \<noteq> ''''"
      using v [of "''startedTime''"] k5 by (simp add: answerValue_simps)
    show ?thesis using a1 a2 a3 a4 a5 unfolding p' by (simp add: mergeAnswers_fields)
  qed
qed

lemma completer_keeps:
  assumes c: "completer w params = Continue evs p'"
  shows "(issueKey params \<noteq> '''' \<longrightarrow> issueKey p' = issueKey params) \<and>
     (timeSpent params \<noteq> '''' \<longrightarrow> timeSpent p' = timeSpent params) \<and>
     (comment params \<noteq> '''' \<longrightarrow> comment p' = comment params) \<and>
     (startedDate params \<noteq> '''' \<longrightarrow> startedDate p' = startedDate params) \<and>
     (startedTime params \<noteq> '''' \<longrightarrow> startedTime p' = startedTime params) \<and>
     noInput p' = noInput params \<and> template p' = template params"
proof -
  from c obtain e1 qs p where g: "getQuestions w params = Continue e1 (qs, p)"
    and empty: "qs = [] \<Longrightarrow> p' = p \<and> evs = e1"
    and asks: "qs \<noteq> [] \<Longrightarrow> \<exists>ans. surveyAsk w qs noAnswers = Inr ans \<and> p' = mergeAnswers p ans \<and> evs = e1 @ [Ask qs]"
    by (rule completer_Continue) blast
  note f = getQuestions_fields [OF g]
  show ?thesis
  proof (cases "qs = []")
    case True
    then have "p' = p" using empty by simp
    then show ?thesis using f by simp
  next
    case False
    then obtain ans where "p' = mergeAnswers p ans" using asks by blast
    then show ?thesis using f by (simp add: mergeAnswers_fields)
  qed
qed

subsection \<open>Sample runs\<close>

lemmas run_defs = isNonInteractive_def isMandatoryParamsMissing_def enter_def completer_def
  getQuestions_def gate_def submit_def getNextAction_def ActionSubmit_def ActionCancel_def
  worklogCall_def startedStamp_def noAnswers_def mergeAnswers_def writeAnswer_def
  issueKeyQuestion_def timeSpentQuestion_def commentQuestion_def startedDateQuestion_def
  startedTimeQuestion_def

lemmas sample_defs = terminal_def piped_def cliFlags_def sampleConfig_def sampleFiles_def
  sampleAnswer_def prefixIssueKey_def ActionSubmit_def

lemma parse_none_piped:
  "parseArgsAndFlags piped [] (cliFlags '''' False False) =
     Inr \<lparr>issueKey = '''', comment = '''', startedDate = '''', startedTime = '''',
          timeSpent = '''', template = '''', noInput = False, debug = False\<rparr>"
  by (simp add: parseArgsAndFlags_def sample_defs)

lemma parse_full:
  "parseArgsAndFlags terminal fullArgs (cliFlags t n wb) =
     Inr \<lparr>issueKey = ''PROJ-1'', comment = ''Did work'', startedDate = ''2023-01-01'',
          startedTime = ''09:00'', timeSpent = ''2h'', template = t, noInput = n, debug = False\<rparr>"
  by (simp add: parseArgsAndFlags_def fullArgs_def sample_defs)

text \<open>
  Claim C2. In non-interactive mode (standard input has data, or the template flag is
  \<^verbatim>\<open>-\<close>) with an empty resolved issue key, the run is exactly one fatal error and a
  non-zero exit: no prompt was generated and the worklog-creation call was not attempted.
\<close>

theorem nonInteractive_without_issueKey_fails:
  assumes "parseArgsAndFlags w args flags = Inr params"
    and "isNonInteractive w params"
    and "issueKey params = ''''"
  shows "add w flags args = Exit [Failed mandatoryMessage] \<and>
     exitCode (add w flags args) \<noteq> 0 \<and>
     \<not> list_ex isAsk (trace (add w flags args)) \<and>
     \<not> list_ex isCall (trace (add w flags args))"
  by (simp add: add_abort [OF assms])

theorem nonInteractive_without_issueKey_fails_witness:
  "parseArgsAndFlags piped [] (cliFlags '''' False False) =
     Inr \<lparr>issueKey = '''', comment = '''', startedDate = '''', startedTime = '''',
          timeSpent = '''', template = '''', noInput = False, debug = False\<rparr> \<and>
   isNonInteractive piped \<lparr>issueKey = '''', comment = '''', startedDate = '''', startedTime = '''',
          timeSpent = '''', template = '''', noInput = False, debug = False\<rparr> \<and>
   add piped (cliFlags '''' False False) [] = Exit [Failed mandatoryMessage] \<and>
   exitCode (add piped (cliFlags '''' False False) []) \<noteq> 0"
proof -
  have ni: "isNonInteractive piped \<lparr>issueKey = '''', comment = '''', startedDate = '''',
      startedTime = '''', timeSpent = '''', template = '''', noInput = False, debug = False\<rparr>"
    by (simp add: isNonInteractive_def piped_def)
  show ?thesis
    using nonInteractive_without_issueKey_fails [OF parse_none_piped ni] parse_none_piped ni
    by simp
qed

text \<open>
  Claim C8. When the five positional arguments are given and the five resolved fields are
  non-empty, \<^verbatim>\<open>getQuestions\<close> returns no question, the Completer asks nothing, and
  the only prompt a run can contain is the confirmation gate.
\<close>

theorem all_fields_given_no_prompts:
  assumes "parseArgsAndFlags w args flags = Inr params"
    and "length args = 5"
    and "'''' \<notin> set (positional params)"
  shows "(\<forall>evs qs p. getQuestions w (enter w params) = Continue evs (qs, p) \<longrightarrow> qs = []) \<and>
     \<not> list_ex isAsk (trace (completer w (enter w params))) \<and>
     (\<forall>qs. Ask qs \<in> set (trace (add w flags args)) \<longrightarrow> qs = [getNextAction])"
proof -
  let ?p = "enter w params"
  have ne: "issueKey ?p \<noteq> ''''" "timeSpent ?p \<noteq> ''''" "comment ?p \<noteq> ''''"
    "startedDate ?p \<noteq> ''''" "startedTime ?p \<noteq> ''''"
    using assms(3) by (auto simp: positional_def enter_def)
  have q: "qs = []" if "getQuestions w ?p = Continue evs (qs, p)" for evs qs p
    using getQuestions_Continue [OF that] ne by simp
  have c: "\<not> isAsk ev" if "ev \<in> set (trace (completer w ?p))" for ev
    using completer_events [OF that] q by auto
  have ni: "\<not> (isNonInteractive w params \<and> issueKey params = '''')"
    using ne(1) by (simp add: enter_def split: if_splits)
  have a: "qs = [getNextAction]" if "Ask qs \<in> set (trace (add w flags args))" for qs
  proof (cases "completer w ?p")
    case (Exit evs)
    then show ?thesis using that c [of "Ask qs"] by (simp add: add_trace [OF assms(1) ni])
  next
    case (Continue evs p)
    then have "Ask qs \<in> set (trace (gate w p)) \<or> Ask qs \<in> set (trace (submit w flags p))"
      using that c [of "Ask qs"] by (auto simp: add_trace [OF assms(1) ni] split: step.splits)
    then show ?thesis
      by (auto simp: gate_trace submit_trace worklogCall_def split: sum.splits if_splits option.splits)
  qed
  show ?thesis using q c a by (auto simp: list_ex_iff)
qed

theorem all_fields_given_no_prompts_witness:
  "parseArgsAndFlags terminal fullArgs (cliFlags '''' False False) =
     Inr \<lparr>issueKey = ''PROJ-1'', comment = ''Did work'', startedDate = ''2023-01-01'',
          startedTime = ''09:00'', timeSpent = ''2h'', template = '''', noInput = False, debug = False\<rparr> \<and>
   length fullArgs = 5 \<and>
   '''' \<notin> set (positional \<lparr>issueKey = ''PROJ-1'', comment = ''Did work'', startedDate = ''2023-01-01'',
          startedTime = ''09:00'', timeSpent = ''2h'', template = '''', noInput = False, debug = False\<rparr>) \<and>
   \<not> list_ex isAsk (trace (completer terminal (enter terminal
        \<lparr>issueKey = ''PROJ-1'', comment = ''Did work'', startedDate = ''2023-01-01'',
          startedTime = ''09:00'', timeSpent = ''2h'', template = '''', noInput = False, debug = False\<rparr>)))"
proof -
  have l: "length fullArgs = 5" by (simp add: fullArgs_def)
  have n: "'''' \<notin> set (positional \<lparr>issueKey = ''PROJ-1'', comment = ''Did work'',
      startedDate = ''2023-01-01'', startedTime = ''09:00'', timeSpent = ''2h'', template = '''',
      noInput = False, debug = False\<rparr>)"
    by (simp add: positional_def)
  show ?thesis
    using all_fields_given_no_prompts [OF parse_full l n] parse_full l n by blast
qed

text \<open>
  Claim C7. The questions \<^verbatim>\<open>getQuestions\<close> returns are named, in this order, by a
  subsequence of issue key, time spent, comment, started date, started time, one question
  per name; without \<^verbatim>\<open>noInput\<close> they are exactly the empty fields in that order. The merge
  stores an answer only in a field that is empty, so the worklog-creation call of a run
  receives every non-empty field of the parsed parameters unchanged.
\<close>

theorem prompts_ordered_and_merge_guarded:
  assumes "parseArgsAndFlags w args flags = Inr params"
  shows "(\<forall>evs qs p. getQuestions w (enter w params) = Continue evs (qs, p) \<longrightarrow>
        subseq (map qName qs) promptOrder \<and> distinct (map qName qs) \<and>
        (\<not> noInput (enter w params) \<longrightarrow>
           map qName qs = filter (\<lambda>n. fieldValue params n = '''') promptOrder)) \<and>
     (\<forall>p ans. \<forall>n \<in> set promptOrder. fieldValue (mergeAnswers p ans) n =
        (if fieldValue p n = '''' then answerValue ans n else fieldValue p n)) \<and>
     (\<forall>k b s t. AddIssueWorklog k b s t \<in> set (trace (add w flags args)) \<longrightarrow>
        (issueKey params \<noteq> '''' \<longrightarrow> k = issueKey params) \<and>
        (timeSpent params \<noteq> '''' \<longrightarrow> t = timeSpent params) \<and>
        (comment params \<noteq> '''' \<longrightarrow> b = comment params) \<and>
        (startedDate params \<noteq> '''' \<and> startedTime params \<noteq> '''' \<longrightarrow> s = startedStamp params))"
proof -
  let ?p = "enter w params"
  have fv: "fieldValue ?p n = fieldValue params n" for n
    by (simp add: fieldValue_def enter_def)
  have order: "subseq (map qName qs) promptOrder \<and> distinct (map qName qs) \<and>
        (\<not> noInput ?p \<longrightarrow> map qName qs = filter (\<lambda>n. fieldValue params n = '''') promptOrder)"
    if g: "getQuestions w ?p = Continue evs (qs, p)" for evs qs p
  proof -
    have d: "distinct promptOrder" by (simp add: promptOrder_def)
    show ?thesis
      unfolding getQuestions_names [OF g] fv
      using d by (auto intro: subseq_filter_left cong: filter_cong)
  qed
  have merge: "fieldValue (mergeAnswers p ans) n =
        (if fieldValue p n = '''' then answerValue ans n else fieldValue p n)"
    if "n \<in> set promptOrder" for p ans n
    using that
    by (auto simp: promptOrder_def fieldValue_simps answerValue_simps mergeAnswers_fields)
  have call: "(issueKey params \<noteq> '''' \<longrightarrow> k = issueKey params) \<and>
        (timeSpent params \<noteq> '''' \<longrightarrow> t = timeSpent params) \<and>
        (comment params \<noteq> '''' \<longrightarrow> b = comment params) \<and>
        (startedDate params \<noteq> '''' \<and> startedTime params \<noteq> '''' \<longrightarrow> s = startedStamp params)"
    if m: "AddIssueWorklog k b s t \<in> set (trace (add w flags args))" for k b s t
  proof -
    from add_call [OF assms m] obtain evs p where c: "completer w ?p = Continue evs p"
      and e: "AddIssueWorklog k b s t = worklogCall p" by auto
    have same: "issueKey ?p = issueKey params" "timeSpent ?p = timeSpent params"
      "comment ?p = comment params" "startedDate ?p = startedDate params"
      "startedTime ?p = startedTime params"
      by (simp_all add: enter_def)
    show ?thesis
      using completer_keeps [OF c] e unfolding same
      by (auto simp: worklogCall_def startedStamp_def)
  qed
  show ?thesis using order merge call by blast
qed

lemma parse_keyOnly:
  "parseArgsAndFlags terminal [''PROJ-1''] (cliFlags '''' False False) = Inr keyOnlyParams"
  by (simp add: parseArgsAndFlags_def keyOnlyParams_def sample_defs)

lemma getQuestions_keyOnly:
  "getQuestions terminal (enter terminal keyOnlyParams) =
     Continue [] ([timeSpentQuestion, commentQuestion, startedDateQuestion ''2023-01-01'',
       startedTimeQuestion ''09:00''], keyOnlyParams)"
  by (simp add: getQuestions_def enter_def isNonInteractive_def keyOnlyParams_def terminal_def)

lemma add_keyOnly:
  "add terminal (cliFlags '''' False False) [''PROJ-1''] =
     Continue [Ask [timeSpentQuestion, commentQuestion, startedDateQuestion ''2023-01-01'',
         startedTimeQuestion ''09:00''],
       Ask [getNextAction], Info ''Adding worklog'',
       AddIssueWorklog ''PROJ-1'' ''Implementation'' ''2023-01-01T09:00:00.000+0100'' ''60m'',
       Success (''Worklog added to issue '' @ [CHR 0x22] @ ''PROJ-1'' @ [CHR 0x22]),
       Printf (''https://jira.example.com/browse/PROJ-1'' @ [CHR 0x0A])] ()"
  unfolding add_def parse_keyOnly
  by (simp add: run_defs sample_defs keyOnlyParams_def)

theorem prompts_ordered_and_merge_guarded_witness:
  "parseArgsAndFlags terminal [''PROJ-1''] (cliFlags '''' False False) = Inr keyOnlyParams \<and>
   getQuestions terminal (enter terminal keyOnlyParams) =
     Continue [] ([timeSpentQuestion, commentQuestion, startedDateQuestion ''2023-01-01'',
       startedTimeQuestion ''09:00''], keyOnlyParams) \<and>
   subseq (map qName [timeSpentQuestion, commentQuestion, startedDateQuestion ''2023-01-01'',
       startedTimeQuestion ''09:00'']) promptOrder \<and>
   map qName [timeSpentQuestion, commentQuestion, startedDateQuestion ''2023-01-01'',
       startedTimeQuestion ''09:00''] = filter (\<lambda>n. fieldValue keyOnlyParams n = '''') promptOrder \<and>
   AddIssueWorklog ''PROJ-1'' ''Implementation'' ''2023-01-01T09:00:00.000+0100'' ''60m''
     \<in> set (trace (add terminal (cliFlags '''' False False) [''PROJ-1''])) \<and>
   issueKey keyOnlyParams = ''PROJ-1''"
proof -
  have n: "\<not> noInput (enter terminal keyOnlyParams)"
    by (simp add: enter_def isNonInteractive_def keyOnlyParams_def terminal_def)
  have m: "AddIssueWorklog ''PROJ-1'' ''Implementation'' ''2023-01-01T09:00:00.000+0100'' ''60m''
     \<in> set (trace (add terminal (cliFlags '''' False False) [''PROJ-1'']))"
    by (simp add: add_keyOnly)
  have k: "issueKey keyOnlyParams \<noteq> ''''" by (simp add: keyOnlyParams_def)
  note T = prompts_ordered_and_merge_guarded [OF parse_keyOnly]
  note A = T [THEN conjunct1, rule_format, OF getQuestions_keyOnly]
  have B: "subseq (map qName [timeSpentQuestion, commentQuestion, startedDateQuestion ''2023-01-01'',
       startedTimeQuestion ''09:00'']) promptOrder"
    using A by (rule conjunct1)
  have C: "map qName [timeSpentQuestion, commentQuestion, startedDateQuestion ''2023-01-01'',
       startedTimeQuestion ''09:00''] = filter (\<lambda>n. fieldValue keyOnlyParams n = '''') promptOrder"
    using A n by blast
  have D: "issueKey keyOnlyParams = ''PROJ-1''"
    using T [THEN conjunct2, THEN conjunct2, rule_format, OF m] k by simp
  show ?thesis
    using parse_keyOnly getQuestions_keyOnly B C m D by (intro conjI)
qed

lemma no_call_mem:
  assumes "\<not> list_ex isCall evs"
  shows "AddIssueWorklog k b s t \<notin> set evs"
proof
  assume "AddIssueWorklog k b s t \<in> set evs"
  moreover have "isCall (AddIssueWorklog k b s t)" by simp
  ultimately have "list_ex isCall evs" unfolding list_ex_iff by (rule bexI [rotated])
  with assms show False by simp
qed

text \<open>
  Claim C10. If the worklog-creation call of a run returns an error, the run ends right
  after the call with that error and a non-zero exit code, and its trace has no
  confirmation line, no browse URL and no browser event, whatever the flag
  \<^verbatim>\<open>web\<close> says; a trace that has one of these three has, before it, a
  worklog-creation call that returned success.
\<close>

theorem failed_call_no_success_output:
  "(\<forall>k b s t e. AddIssueWorklog k b s t \<in> set (trace (add w flags args)) \<and>
        addIssueWorklog w k b s t = Some e \<longrightarrow>
        exitCode (add w flags args) \<noteq> 0 \<and>
        \<not> list_ex isSuccessOutput (trace (add w flags args)) \<and>
        (\<exists>pre. add w flags args = Exit (pre @ [AddIssueWorklog k b s t, ExitError e]))) \<and>
   (list_ex isSuccessOutput (trace (add w flags args)) \<longrightarrow>
      (\<exists>pre k b s t post. trace (add w flags args) = pre @ AddIssueWorklog k b s t # post \<and>
         addIssueWorklog w k b s t = None \<and> \<not> list_ex isSuccessOutput pre))"
proof (cases "parseArgsAndFlags w args flags")
  case (Inl e)
  then show ?thesis by (simp add: add_def)
next
  case (Inr p0)
  show ?thesis
  proof (cases "isNonInteractive w p0 \<and> issueKey p0 = ''''")
    case True
    then show ?thesis using add_abort [OF Inr] by simp
  next
    case ni: False
    note u = add_unfold [OF Inr ni]
    show ?thesis
    proof (cases "completer w (enter w p0)")
      case (Exit evs)
      have "\<forall>ev \<in> set evs. \<not> isCall ev \<and> \<not> isSuccessOutput ev"
        using completer_quiet [of _ w "enter w p0"] Exit by simp
      then show ?thesis using Exit by (auto simp: u list_ex_iff)
    next
      case (Continue evs p)
      have q1: "\<forall>ev \<in> set evs. \<not> isCall ev \<and> \<not> isSuccessOutput ev"
        using completer_quiet [of _ w "enter w p0"] Continue by simp
      show ?thesis
      proof (cases "gate w p")
        case (Exit g)
        have "\<forall>ev \<in> set g. \<not> isCall ev \<and> \<not> isSuccessOutput ev"
          using gate_quiet [of _ w p] Exit by simp
        then show ?thesis using Continue Exit q1 by (auto simp: u list_ex_iff)
      next
        case gc: (Continue g x)
        have q2: "\<forall>ev \<in> set g. \<not> isCall ev \<and> \<not> isSuccessOutput ev"
          using gate_quiet [of _ w p] gc by simp
        let ?pre = "evs @ g @ [Info ''Adding worklog'']"
        have pre: "\<not> list_ex isSuccessOutput ?pre" "\<not> list_ex isCall ?pre"
          using q1 q2 by (auto simp: list_ex_iff)
        show ?thesis
        proof (cases "addIssueWorklog w (issueKey p) (comment p) (startedStamp p) (timeSpent p)")
          case (Some e)
          have a: "add w flags args = Exit (?pre @ [worklogCall p, ExitError e])"
            using Continue gc Some by (simp add: u submit_def)
          have quiet: "\<not> list_ex isSuccessOutput (trace (add w flags args))"
            unfolding a using pre(1) by (simp add: worklogCall_def)
          have only: "AddIssueWorklog k b s t = worklogCall p"
            if "AddIssueWorklog k b s t \<in> set (trace (add w flags args))" for k b s t
            using that no_call_mem [OF pre(2), of k b s t] unfolding a by auto
          have "exitCode (add w flags args) \<noteq> 0 \<and>
              \<not> list_ex isSuccessOutput (trace (add w flags args)) \<and>
              (\<exists>pre. add w flags args = Exit (pre @ [AddIssueWorklog k b s t, ExitError e']))"
            if m: "AddIssueWorklog k b s t \<in> set (trace (add w flags args))"
              and r: "addIssueWorklog w k b s t = Some e'" for k b s t e'
          proof -
            have c: "worklogCall p = AddIssueWorklog k b s t" using only [OF m] by simp
            then have "e' = e" using r Some by (simp add: worklogCall_def)
            then show ?thesis using quiet a c by auto
          qed
          then show ?thesis using quiet by blast
        next
          case None
          define post where "post = drop 2 (trace (submit w flags p))"
          have t0: "trace (add w flags args) = evs @ g @ trace (submit w flags p)"
            using Continue gc by (simp add: add_trace [OF Inr ni])
          have t: "trace (add w flags args) = ?pre @ worklogCall p # post"
            unfolding t0 post_def by (simp add: submit_trace)
          have post: "\<not> list_ex isCall post"
            unfolding post_def using None by (simp add: submit_trace split: option.splits)
          have only: "AddIssueWorklog k b s t \<in> set (trace (add w flags args)) \<Longrightarrow>
              AddIssueWorklog k b s t = worklogCall p" for k b s t
            using no_call_mem [OF pre(2), of k b s t] no_call_mem [OF post, of k b s t]
            unfolding t by auto
          have "\<exists>pre k b s t post. trace (add w flags args) = pre @ AddIssueWorklog k b s t # post \<and>
             addIssueWorklog w k b s t = None \<and> \<not> list_ex isSuccessOutput pre"
            using t None pre(1) unfolding worklogCall_def by blast
          moreover have "addIssueWorklog w k b s t \<noteq> Some e"
            if "AddIssueWorklog k b s t \<in> set (trace (add w flags args))" for k b s t e
            using only [OF that] None by (simp add: worklogCall_def)
          ultimately show ?thesis by blast
        qed
      qed
    qed
  qed
qed

lemma parse_full_rejecting:
  "parseArgsAndFlags rejecting fullArgs (cliFlags t n wb) =
     Inr \<lparr>issueKey = ''PROJ-1'', comment = ''Did work'', startedDate = ''2023-01-01'',
          startedTime = ''09:00'', timeSpent = ''2h'', template = t, noInput = n, debug = False\<rparr>"
  by (simp add: parseArgsAndFlags_def fullArgs_def rejecting_def sample_defs)

lemma add_full_rejecting:
  "add rejecting (cliFlags '''' False True) fullArgs =
     Exit [Ask [getNextAction], Info ''Adding worklog'',
       AddIssueWorklog ''PROJ-1'' ''Did work'' ''2023-01-01T09:00:00.000+0100'' ''2h'',
       ExitError ''401 Unauthorized'']"
  unfolding add_def parse_full_rejecting
  by (simp add: run_defs rejecting_def sample_defs)

theorem failed_call_no_success_output_witness:
  "AddIssueWorklog ''PROJ-1'' ''Did work'' ''2023-01-01T09:00:00.000+0100'' ''2h''
     \<in> set (trace (add rejecting (cliFlags '''' False True) fullArgs)) \<and>
   addIssueWorklog rejecting ''PROJ-1'' ''Did work'' ''2023-01-01T09:00:00.000+0100'' ''2h'' =
     Some ''401 Unauthorized'' \<and>
   getBool (cliFlags '''' False True) ''web'' = Inr True \<and>
   exitCode (add rejecting (cliFlags '''' False True) fullArgs) \<noteq> 0 \<and>
   \<not> list_ex isSuccessOutput (trace (add rejecting (cliFlags '''' False True) fullArgs))"
proof -
  have m: "AddIssueWorklog ''PROJ-1'' ''Did work'' ''2023-01-01T09:00:00.000+0100'' ''2h''
     \<in> set (trace (add rejecting (cliFlags '''' False True) fullArgs))"
    by (simp add: add_full_rejecting)
  have r: "addIssueWorklog rejecting ''PROJ-1'' ''Did work'' ''2023-01-01T09:00:00.000+0100'' ''2h'' =
     Some ''401 Unauthorized''"
    by (simp add: rejecting_def terminal_def)
  have wb: "getBool (cliFlags '''' False True) ''web'' = Inr True"
    by (simp add: cliFlags_def)
  note T = failed_call_no_success_output [of rejecting "cliFlags '''' False True" fullArgs,
      THEN conjunct1, rule_format, OF conjI, OF m r]
  show ?thesis using m r wb T by blast
qed

text \<open>
  Claim C4. For the arguments \<^verbatim>\<open>PROJ-1 2h "Did work" 2023-01-01 09:00\<close> with no
  template, no \<^verbatim>\<open>--no-input\<close>, nothing on standard input, a normaliser that leaves the
  full key \<^verbatim>\<open>PROJ-1\<close> as it is and the answer Submit at the gate, the run asks only for
  the confirmation and then makes exactly one worklog-creation call, with issue key
  \<^verbatim>\<open>PROJ-1\<close>, body \<^verbatim>\<open>Did work\<close>, duration \<^verbatim>\<open>2h\<close> and the start timestamp
  \<^verbatim>\<open>2023-01-01T09:00:00.000+0100\<close>: the date, \<^verbatim>\<open>T\<close>, the time and the fixed suffix
  \<^verbatim>\<open>:00.000+0100\<close>.
\<close>

theorem full_invocation_call:
  assumes "getBool flags ''debug'' = Inr d"
    and "getString flags ''template'' = Inr ''''"
    and "getBool flags ''no-input'' = Inr False"
    and "\<not> stdinHasData w"
    and "getJiraIssueKey w (viperGetString w ''project.key'') ''PROJ-1'' = ''PROJ-1''"
    and "respond w getNextAction = Inr ActionSubmit"
  shows "take 3 (trace (add w flags fullArgs)) =
       [Ask [getNextAction], Info ''Adding worklog'',
        AddIssueWorklog ''PROJ-1'' ''Did work'' ''2023-01-01T09:00:00.000+0100'' ''2h''] \<and>
     filter isCall (trace (add w flags fullArgs)) =
       [AddIssueWorklog ''PROJ-1'' ''Did work'' ''2023-01-01T09:00:00.000+0100'' ''2h''] \<and>
     startedStamp \<lparr>issueKey = ''PROJ-1'', comment = ''Did work'', startedDate = ''2023-01-01'',
          startedTime = ''09:00'', timeSpent = ''2h'', template = '''', noInput = False, debug = d\<rparr> =
       ''2023-01-01'' @ ''T'' @ ''09:00'' @ '':00.000+0100''"
proof -
  let ?p = "\<lparr>issueKey = ''PROJ-1'', comment = ''Did work'', startedDate = ''2023-01-01'',
          startedTime = ''09:00'', timeSpent = ''2h'', template = '''', noInput = False, debug = d\<rparr>"
  have p: "parseArgsAndFlags w fullArgs flags = Inr ?p"
    using assms(1,2,3,5) by (simp add: parseArgsAndFlags_def fullArgs_def)
  have ni: "\<not> (isNonInteractive w ?p \<and> issueKey ?p = '''')" by simp
  have e: "enter w ?p = ?p" using assms(4) by (simp add: enter_def isNonInteractive_def)
  have c: "completer w ?p = Continue [] ?p"
    using assms(4) by (simp add: completer_def getQuestions_def)
  have g: "gate w ?p = Continue [Ask [getNextAction]] ()"
    using assms(6) by (simp add: gate_def ActionSubmit_def ActionCancel_def)
  have t: "trace (add w flags fullArgs) = Ask [getNextAction] # trace (submit w flags ?p)"
    by (simp add: add_trace [OF p ni] e c g)
  have w: "worklogCall ?p =
      AddIssueWorklog ''PROJ-1'' ''Did work'' ''2023-01-01T09:00:00.000+0100'' ''2h''"
    by (simp add: worklogCall_def startedStamp_def)
  show ?thesis
    unfolding t by (simp add: submit_trace w startedStamp_def split: option.splits)
qed

theorem full_invocation_call_witness:
  "getBool (cliFlags '''' False False) ''debug'' = Inr False \<and>
   getString (cliFlags '''' False False) ''template'' = Inr '''' \<and>
   getBool (cliFlags '''' False False) ''no-input'' = Inr False \<and>
   \<not> stdinHasData terminal \<and>
   getJiraIssueKey terminal (viperGetString terminal ''project.key'') ''PROJ-1'' = ''PROJ-1'' \<and>
   respond terminal getNextAction = Inr ActionSubmit \<and>
   filter isCall (trace (add terminal (cliFlags '''' False False) fullArgs)) =
       [AddIssueWorklog ''PROJ-1'' ''Did work'' ''2023-01-01T09:00:00.000+0100'' ''2h'']"
proof -
  have h1: "getBool (cliFlags '''' False False) ''debug'' = Inr False"
    and h2: "getString (cliFlags '''' False False) ''template'' = Inr ''''"
    and h3: "getBool (cliFlags '''' False False) ''no-input'' = Inr False"
    by (simp_all add: cliFlags_def)
  have h4: "\<not> stdinHasData terminal" by (simp add: terminal_def)
  have h5: "getJiraIssueKey terminal (viperGetString terminal ''project.key'') ''PROJ-1'' = ''PROJ-1''"
    by (simp add: sample_defs)
  have h6: "respond terminal getNextAction = Inr ActionSubmit"
    by (simp add: terminal_def sampleAnswer_def getNextAction_def)
  show ?thesis
    using full_invocation_call [OF h1 h2 h3 h4 h5 h6] h1 h2 h3 h4 h5 h6 by blast
qed

lemma parse_piped:
  "parseArgsAndFlags piped [''PROJ-1'', ''2h''] (cliFlags '''' False False) = Inr pipedParams"
  by (simp add: parseArgsAndFlags_def pipedParams_def sample_defs)

lemma completer_piped:
  "completer piped (enter piped pipedParams) =
     Continue [ReadFile ''''] (pipedParams\<lparr>comment := ''Fixed bug'', noInput := True\<rparr>)"
  by (simp add: run_defs pipedParams_def piped_def terminal_def)

lemma add_piped:
  "add piped (cliFlags '''' False False) [''PROJ-1'', ''2h''] =
     Continue [ReadFile '''', Info ''Adding worklog'',
       AddIssueWorklog ''PROJ-1'' ''Fixed bug'' ''T:00.000+0100'' ''2h'',
       Success (''Worklog added to issue '' @ [CHR 0x22] @ ''PROJ-1'' @ [CHR 0x22]),
       Printf (''https://jira.example.com/browse/PROJ-1'' @ [CHR 0x0A])] ()"
  unfolding add_def parse_piped
  by (simp add: run_defs sample_defs pipedParams_def)

text \<open>
  Claim C1, as stated, fails: with \<^verbatim>\<open>Fixed bug\<close> piped in and the arguments
  \<^verbatim>\<open>PROJ-1 2h\<close> the Completer returns a record whose started date and started time are
  empty, and the worklog-creation call is made, with the timestamp \<^verbatim>\<open>T:00.000+0100\<close>.
\<close>

theorem submission_with_empty_start_counterexample:
  "parseArgsAndFlags piped [''PROJ-1'', ''2h''] (cliFlags '''' False False) = Inr pipedParams \<and>
   completer piped (enter piped pipedParams) =
     Continue [ReadFile ''''] (pipedParams\<lparr>comment := ''Fixed bug'', noInput := True\<rparr>) \<and>
   startedDate (pipedParams\<lparr>comment := ''Fixed bug'', noInput := True\<rparr>) = '''' \<and>
   startedTime (pipedParams\<lparr>comment := ''Fixed bug'', noInput := True\<rparr>) = '''' \<and>
   AddIssueWorklog ''PROJ-1'' ''Fixed bug'' ''T:00.000+0100'' ''2h''
     \<in> set (trace (add piped (cliFlags '''' False False) [''PROJ-1'', ''2h'']))"
  by (simp add: parse_piped completer_piped add_piped) (simp add: pipedParams_def)

text \<open>
  Claim C1, amended. In non-interactive mode an empty issue key ends the run before the
  Completer. When the prompt engine gives no empty answer, every worklog-creation call of
  a run is made from the record the Completer returned, whose issue key and time spent are
  non-empty; its comment, started date and started time are non-empty as well when
  \<^verbatim>\<open>noInput\<close> is not in effect (neither the flag nor non-interactive mode).
\<close>

theorem submitted_fields_nonempty:
  assumes "parseArgsAndFlags w args flags = Inr params"
    and "\<forall>q. respond w q \<noteq> Inr ''''"
  shows "(isNonInteractive w params \<and> issueKey params = '''' \<longrightarrow>
        add w flags args = Exit [Failed mandatoryMessage]) \<and>
     (\<forall>ev \<in> set (trace (add w flags args)). isCall ev \<longrightarrow>
        (\<exists>evs p. completer w (enter w params) = Continue evs p \<and> ev = worklogCall p \<and>
           issueKey p \<noteq> '''' \<and> timeSpent p \<noteq> '''' \<and>
           (\<not> noInput (enter w params) \<longrightarrow>
              comment p \<noteq> '''' \<and> startedDate p \<noteq> '''' \<and> startedTime p \<noteq> '''')))"
proof -
  have r: "\<forall>q v. respond w q = Inr v \<longrightarrow> v \<noteq> ''''"
    using assms(2) by auto
  have abort: "add w flags args = Exit [Failed mandatoryMessage]"
    if "isNonInteractive w params \<and> issueKey params = ''''"
    using add_abort [OF assms(1)] that by simp
  have call: "\<exists>evs p. completer w (enter w params) = Continue evs p \<and> ev = worklogCall p \<and>
           issueKey p \<noteq> '''' \<and> timeSpent p \<noteq> '''' \<and>
           (\<not> noInput (enter w params) \<longrightarrow>
              comment p \<noteq> '''' \<and> startedDate p \<noteq> '''' \<and> startedTime p \<noteq> '''')"
    if m: "ev \<in> set (trace (add w flags args))" and c: "isCall ev" for ev
  proof -
    from add_call [OF assms(1) m c] obtain evs p
      where cp: "completer w (enter w params) = Continue evs p" and e: "ev = worklogCall p"
      by blast
    show ?thesis using completer_nonempty [OF cp r] cp e by blast
  qed
  show ?thesis using abort call by blast
qed

theorem submitted_fields_nonempty_witness:
  "parseArgsAndFlags terminal [''PROJ-1''] (cliFlags '''' False False) = Inr keyOnlyParams \<and>
   (\<forall>q. respond terminal q \<noteq> Inr '''') \<and>
   AddIssueWorklog ''PROJ-1'' ''Implementation'' ''2023-01-01T09:00:00.000+0100'' ''60m''
     \<in> set (trace (add terminal (cliFlags '''' False False) [''PROJ-1''])) \<and>
   \<not> noInput (enter terminal keyOnlyParams) \<and>
   (\<exists>evs p. completer terminal (enter terminal keyOnlyParams) = Continue evs p \<and>
      AddIssueWorklog ''PROJ-1'' ''Implementation'' ''2023-01-01T09:00:00.000+0100'' ''60m'' =
        worklogCall p \<and>
      issueKey p \<noteq> '''' \<and> timeSpent p \<noteq> '''' \<and> comment p \<noteq> '''' \<and>
      startedDate p \<noteq> '''' \<and> startedTime p \<noteq> '''') \<and>
   (\<forall>q. respond piped q \<noteq> Inr '''') \<and>
   add piped (cliFlags '''' False False) [] = Exit [Failed mandatoryMessage]"
proof -
  have r2: "\<forall>q. respond piped q \<noteq> Inr ''''"
    by (simp add: piped_def terminal_def sampleAnswer_def ActionSubmit_def)
  have a: "add piped (cliFlags '''' False False) [] = Exit [Failed mandatoryMessage]"
    using submitted_fields_nonempty [OF parse_none_piped r2, THEN conjunct1]
    by (simp add: isNonInteractive_def piped_def)
  have r: "\<forall>q. respond terminal q \<noteq> Inr ''''"
    by (simp add: terminal_def sampleAnswer_def ActionSubmit_def)
  have m: "AddIssueWorklog ''PROJ-1'' ''Implementation'' ''2023-01-01T09:00:00.000+0100'' ''60m''
     \<in> set (trace (add terminal (cliFlags '''' False False) [''PROJ-1'']))"
    by (simp add: add_keyOnly)
  have n: "\<not> noInput (enter terminal keyOnlyParams)"
    by (simp add: enter_def isNonInteractive_def keyOnlyParams_def terminal_def)
  have c: "isCall (AddIssueWorklog ''PROJ-1'' ''Implementation'' ''2023-01-01T09:00:00.000+0100'' ''60m'')"
    by simp
  note T = submitted_fields_nonempty [OF parse_keyOnly r, THEN conjunct2, rule_format, OF m c]
  show ?thesis using parse_keyOnly r m n T r2 a by blast
qed

lemma add_full_noInput:
  "add terminal (cliFlags '''' True False) fullArgs =
     Continue [Info ''Adding worklog'',
       AddIssueWorklog ''PROJ-1'' ''Did work'' ''2023-01-01T09:00:00.000+0100'' ''2h'',
       Success (''Worklog added to issue '' @ [CHR 0x22] @ ''PROJ-1'' @ [CHR 0x22]),
       Printf (''https://jira.example.com/browse/PROJ-1'' @ [CHR 0x0A])] ()"
  unfolding add_def parse_full
  by (simp add: run_defs sample_defs)

text \<open>
  Claim C6, as stated, fails: at a terminal (nothing piped, no template) with
  \<^verbatim>\<open>--no-input\<close> and the five arguments, the run is interactive in the claim's sense,
  yet no confirmation is presented and the worklog-creation call is made.
\<close>

theorem interactive_noInput_skips_gate_counterexample:
  "parseArgsAndFlags terminal fullArgs (cliFlags '''' True False) =
     Inr \<lparr>issueKey = ''PROJ-1'', comment = ''Did work'', startedDate = ''2023-01-01'',
          startedTime = ''09:00'', timeSpent = ''2h'', template = '''', noInput = True, debug = False\<rparr> \<and>
   \<not> isNonInteractive terminal \<lparr>issueKey = ''PROJ-1'', comment = ''Did work'',
          startedDate = ''2023-01-01'', startedTime = ''09:00'', timeSpent = ''2h'', template = '''',
          noInput = True, debug = False\<rparr> \<and>
   Ask [getNextAction] \<notin> set (trace (add terminal (cliFlags '''' True False) fullArgs)) \<and>
   AddIssueWorklog ''PROJ-1'' ''Did work'' ''2023-01-01T09:00:00.000+0100'' ''2h''
     \<in> set (trace (add terminal (cliFlags '''' True False) fullArgs))"
  by (simp add: parse_full add_full_noInput) (simp add: isNonInteractive_def terminal_def)

lemma getQuestions_not_gate:
  assumes "getQuestions w params = Continue evs (qs, p)"
  shows "qs \<noteq> [getNextAction]"
proof
  assume "qs = [getNextAction]"
  then have "''action'' \<in> qName ` set qs" by (simp add: getNextAction_def)
  then show False unfolding getQuestions_asked [OF assms] by (simp add: promptOrder_def)
qed

lemma completer_no_gate:
  "Ask [getNextAction] \<notin> set (trace (completer w params))"
proof
  assume "Ask [getNextAction] \<in> set (trace (completer w params))"
  from completer_events [OF this] obtain evs p
    where "getQuestions w params = Continue evs ([getNextAction], p)" by auto
  then show False using getQuestions_not_gate by blast
qed

lemma submit_no_ask: "Ask qs \<notin> set (trace (submit w flags p))"
  by (auto simp: submit_trace worklogCall_def split: option.splits if_splits)

text \<open>
  Claim C6, amended. The gate depends on \<^verbatim>\<open>noInput\<close>, which the flag
  \<^verbatim>\<open>--no-input\<close> sets as well as non-interactive mode. With \<^verbatim>\<open>noInput\<close> in effect
  (so in every non-interactive run) no confirmation is presented. Without it, once the
  Completer has returned, the next event is the submit/cancel question; the answer Cancel
  ends the run with \<^verbatim>\<open>Action aborted\<close>, a non-zero exit code and no worklog-creation
  call.
\<close>

theorem gate_depends_on_noInput:
  assumes "parseArgsAndFlags w args flags = Inr params"
  shows "(isNonInteractive w params \<longrightarrow> noInput (enter w params)) \<and>
     (noInput params \<longrightarrow> noInput (enter w params)) \<and>
     (noInput (enter w params) \<longrightarrow> Ask [getNextAction] \<notin> set (trace (add w flags args))) \<and>
     (\<forall>evs p. \<not> noInput (enter w params) \<and> completer w (enter w params) = Continue evs p \<longrightarrow>
        take (Suc (length evs)) (trace (add w flags args)) = evs @ [Ask [getNextAction]] \<and>
        (respond w getNextAction = Inr ActionCancel \<longrightarrow>
           add w flags args = Exit (evs @ [Ask [getNextAction], Failed ''Action aborted'']) \<and>
           exitCode (add w flags args) \<noteq> 0 \<and>
           \<not> list_ex isCall (trace (add w flags args))))"
proof -
  let ?p = "enter w params"
  have e1: "isNonInteractive w params \<longrightarrow> noInput ?p" by (simp add: enter_def)
  have e2: "noInput params \<longrightarrow> noInput ?p" by (simp add: enter_def)
  have skip: "Ask [getNextAction] \<notin> set (trace (add w flags args))" if n: "noInput ?p"
  proof (cases "isNonInteractive w params \<and> issueKey params = ''''")
    case True
    then show ?thesis using add_abort [OF assms] by simp
  next
    case ni: False
    show ?thesis
    proof (cases "completer w ?p")
      case (Exit evs)
      then show ?thesis
        using completer_no_gate [of w ?p] by (simp add: add_trace [OF assms ni])
    next
      case (Continue evs p)
      have "noInput p" using completer_keeps [OF Continue] n by simp
      then have "trace (gate w p) = []" "gate w p = Continue [] ()"
        by (simp_all add: gate_def)
      then show ?thesis
        using Continue completer_no_gate [of w ?p] submit_no_ask [of "[getNextAction]" w flags p]
        by (simp add: add_trace [OF assms ni])
    qed
  qed
  have ask: "take (Suc (length evs)) (trace (add w flags args)) = evs @ [Ask [getNextAction]] \<and>
        (respond w getNextAction = Inr ActionCancel \<longrightarrow>
           add w flags args = Exit (evs @ [Ask [getNextAction], Failed ''Action aborted'']) \<and>
           exitCode (add w flags args) \<noteq> 0 \<and>
           \<not> list_ex isCall (trace (add w flags args)))"
    if n: "\<not> noInput ?p" and c: "completer w ?p = Continue evs p" for evs p
  proof -
    have ni: "\<not> (isNonInteractive w params \<and> issueKey params = '''')"
      using n by (auto simp: enter_def)
    have np: "\<not> noInput p" using completer_keeps [OF c] n by simp
    have t: "trace (add w flags args) =
        evs @ trace (gate w p) @
          (case gate w p of Exit g \<Rightarrow> [] | Continue g u \<Rightarrow> trace (submit w flags p))"
      using c by (simp add: add_trace [OF assms ni])
    have g: "\<exists>rest. trace (gate w p) = Ask [getNextAction] # rest"
      using np by (simp add: gate_trace)
    have first: "take (Suc (length evs)) (trace (add w flags args)) = evs @ [Ask [getNextAction]]"
      using g unfolding t by auto
    have cancel: "add w flags args = Exit (evs @ [Ask [getNextAction], Failed ''Action aborted'']) \<and>
           exitCode (add w flags args) \<noteq> 0 \<and> \<not> list_ex isCall (trace (add w flags args))"
      if a: "respond w getNextAction = Inr ActionCancel"
    proof -
      have gx: "gate w p = Exit [Ask [getNextAction], Failed ''Action aborted'']"
        using np a by (simp add: gate_def)
      have ax: "add w flags args = Exit (evs @ [Ask [getNextAction], Failed ''Action aborted''])"
        using c gx by (simp add: add_unfold [OF assms ni])
      have "\<forall>ev \<in> set evs. \<not> isCall ev"
        using completer_quiet [of _ w ?p] c by simp
      then show ?thesis unfolding ax by (simp add: list_ex_iff)
    qed
    show ?thesis using first cancel by blast
  qed
  show ?thesis using e1 e2 skip ask by blast
qed

lemma parse_full_cancelling:
  "parseArgsAndFlags cancelling fullArgs (cliFlags '''' False False) = Inr fullParams"
  by (simp add: parseArgsAndFlags_def fullArgs_def fullParams_def cancelling_def sample_defs)

lemma completer_full_cancelling:
  "completer cancelling (enter cancelling fullParams) = Continue [] fullParams"
  by (simp add: run_defs fullParams_def cancelling_def terminal_def)

theorem gate_depends_on_noInput_witness:
  "parseArgsAndFlags cancelling fullArgs (cliFlags '''' False False) = Inr fullParams \<and>
   \<not> noInput (enter cancelling fullParams) \<and>
   completer cancelling (enter cancelling fullParams) = Continue [] fullParams \<and>
   respond cancelling getNextAction = Inr ActionCancel \<and>
   add cancelling (cliFlags '''' False False) fullArgs =
     Exit [Ask [getNextAction], Failed ''Action aborted''] \<and>
   exitCode (add cancelling (cliFlags '''' False False) fullArgs) \<noteq> 0 \<and>
   parseArgsAndFlags piped [''PROJ-1'', ''2h''] (cliFlags '''' False False) = Inr pipedParams \<and>
   isNonInteractive piped pipedParams \<and>
   Ask [getNextAction] \<notin> set (trace (add piped (cliFlags '''' False False) [''PROJ-1'', ''2h'']))"
proof -
  have n: "\<not> noInput (enter cancelling fullParams)"
    by (simp add: enter_def isNonInteractive_def fullParams_def cancelling_def terminal_def)
  have a: "respond cancelling getNextAction = Inr ActionCancel"
    by (simp add: cancelling_def getNextAction_def)
  note T = gate_depends_on_noInput [OF parse_full_cancelling]
  note T4 = T [THEN conjunct2, THEN conjunct2, THEN conjunct2, rule_format,
      OF conjI, OF n completer_full_cancelling]
  have x: "add cancelling (cliFlags '''' False False) fullArgs =
       Exit [Ask [getNextAction], Failed ''Action aborted''] \<and>
     exitCode (add cancelling (cliFlags '''' False False) fullArgs) \<noteq> 0"
    using T4 a by simp
  have i: "isNonInteractive piped pipedParams"
    by (simp add: isNonInteractive_def piped_def)
  note P = gate_depends_on_noInput [OF parse_piped]
  have s: "Ask [getNextAction] \<notin> set (trace (add piped (cliFlags '''' False False) [''PROJ-1'', ''2h'']))"
    using P i by blast
  show ?thesis
    using parse_full_cancelling n completer_full_cancelling a x parse_piped i s by simp
qed

lemma add_full:
  "add terminal (cliFlags '''' False False) fullArgs =
     Continue [Ask [getNextAction], Info ''Adding worklog'',
       AddIssueWorklog ''PROJ-1'' ''Did work'' ''2023-01-01T09:00:00.000+0100'' ''2h'',
       Success (''Worklog added to issue '' @ [CHR 0x22] @ ''PROJ-1'' @ [CHR 0x22]),
       Printf (''https://jira.example.com/browse/PROJ-1'' @ [CHR 0x0A])] ()"
  unfolding add_def parse_full
  by (simp add: run_defs sample_defs)

lemma add_full_missing_template:
  "add terminal (cliFlags ''/tmp/missing.tmpl'' False False) fullArgs =
     Exit [ReadFile ''/tmp/missing.tmpl'',
       Failed ''Error: open /tmp/missing.tmpl: no such file or directory'']"
  unfolding add_def parse_full
  by (simp add: run_defs sample_defs)

text \<open>
  Claim C5, as stated, fails: with the comment argument \<^verbatim>\<open>Did work\<close> the run without
  a template flag submits, and the same run with the flag naming a file that cannot be
  read ends with a fatal error before any call: the template is read although the comment
  is given.
\<close>

theorem unreadable_template_fails_counterexample:
  "parseArgsAndFlags terminal fullArgs (cliFlags ''/tmp/missing.tmpl'' False False) =
     Inr \<lparr>issueKey = ''PROJ-1'', comment = ''Did work'', startedDate = ''2023-01-01'',
          startedTime = ''09:00'', timeSpent = ''2h'', template = ''/tmp/missing.tmpl'',
          noInput = False, debug = False\<rparr> \<and>
   add terminal (cliFlags ''/tmp/missing.tmpl'' False False) fullArgs =
     Exit [ReadFile ''/tmp/missing.tmpl'',
       Failed ''Error: open /tmp/missing.tmpl: no such file or directory''] \<and>
   add terminal (cliFlags '''' False False) fullArgs =
     Continue [Ask [getNextAction], Info ''Adding worklog'',
       AddIssueWorklog ''PROJ-1'' ''Did work'' ''2023-01-01T09:00:00.000+0100'' ''2h'',
       Success (''Worklog added to issue '' @ [CHR 0x22] @ ''PROJ-1'' @ [CHR 0x22]),
       Printf (''https://jira.example.com/browse/PROJ-1'' @ [CHR 0x0A])] ()"
  by (simp only: parse_full add_full add_full_missing_template simp_thms)

subsection \<open>Independence of the text read\<close>

lemma surveyAsk_readFile:
  "surveyAsk (w\<lparr>readFile := r\<rparr>) qs a = surveyAsk w qs a"
  by (induction qs arbitrary: a) (auto split: sum.splits)

lemma gate_readFile: "gate (w\<lparr>readFile := r\<rparr>) p = gate w p"
  by (simp add: gate_def split: sum.splits)

lemma submit_readFile: "submit (w\<lparr>readFile := r\<rparr>) flags p = submit w flags p"
  by (simp add: submit_def Let_def split: option.splits)

lemma parse_readFile:
  "parseArgsAndFlags (w\<lparr>readFile := r\<rparr>) args flags = parseArgsAndFlags w args flags"
  by (simp add: parseArgsAndFlags_def Let_def split: sum.splits)

lemma enter_readFile: "enter (w\<lparr>readFile := r\<rparr>) p = enter w p"
  by (simp add: enter_def isNonInteractive_def)

lemma getQuestions_readFile:
  assumes "comment p \<noteq> ''''"
    and "readFile w (template p) = Inr b" and "r (template p) = Inr b'"
  shows "getQuestions (w\<lparr>readFile := r\<rparr>) p = getQuestions w p"
  using assms by (simp add: getQuestions_def Let_def)

lemma completer_readFile:
  assumes "comment p \<noteq> ''''"
    and "readFile w (template p) = Inr b" and "r (template p) = Inr b'"
  shows "completer (w\<lparr>readFile := r\<rparr>) p = completer w p"
  by (simp add: completer_def surveyAsk_readFile
      getQuestions_readFile [where p = p and w = w and r = r and b = b and b' = b', OF assms]
      cong: if_cong)

text \<open>
  Claim C5, amended. With a non-empty comment argument the body of every
  worklog-creation call is that argument, and the text read from the template has no
  effect on the run: two worlds that differ only in what a successful read returns give
  the same run. The template source is still read when the flag is set (or standard input
  has data), and a failed read ends the run with a fatal error.
\<close>

theorem explicit_comment_is_body:
  assumes "parseArgsAndFlags w args flags = Inr params"
    and "comment params \<noteq> ''''"
  shows "(\<forall>k b s t. AddIssueWorklog k b s t \<in> set (trace (add w flags args)) \<longrightarrow>
        b = comment params) \<and>
     (\<forall>r b b'. readFile w (template params) = Inr b \<and> r (template params) = Inr b' \<longrightarrow>
        add (w\<lparr>readFile := r\<rparr>) flags args = add w flags args) \<and>
     (\<forall>e. (template params \<noteq> '''' \<or> stdinHasData w) \<and>
        readFile w (template params) = Inl e \<and>
        \<not> (isNonInteractive w params \<and> issueKey params = '''') \<longrightarrow>
        add w flags args = Exit [ReadFile (template params), Failed (''Error: '' @ e)])"
proof -
  let ?p = "enter w params"
  have cp: "comment ?p = comment params" and tp: "template ?p = template params"
    by (simp_all add: enter_def)
  have body: "b = comment params"
    if m: "AddIssueWorklog k b s t \<in> set (trace (add w flags args))" for k b s t
  proof -
    from add_call [OF assms(1) m] obtain evs p where c: "completer w ?p = Continue evs p"
      and e: "AddIssueWorklog k b s t = worklogCall p" by auto
    show ?thesis
      using completer_keeps [OF c] e assms(2) unfolding cp by (simp add: worklogCall_def)
  qed
  have same: "add (w\<lparr>readFile := r\<rparr>) flags args = add w flags args"
    if "readFile w (template params) = Inr b" and "r (template params) = Inr b'" for r b b'
  proof -
    have c: "completer (w\<lparr>readFile := r\<rparr>) ?p = completer w ?p"
      using that assms(2)
      by (intro completer_readFile [where p = ?p and w = w and r = r and b = b and b' = b'])
        (simp_all add: cp tp)
    show ?thesis
      by (simp add: add_def parse_readFile assms(1) enter_readFile c gate_readFile submit_readFile
          isNonInteractive_def)
  qed
  have fatal: "add w flags args = Exit [ReadFile (template params), Failed (''Error: '' @ e)]"
    if "template params \<noteq> '''' \<or> stdinHasData w" and "readFile w (template params) = Inl e"
      and ni: "\<not> (isNonInteractive w params \<and> issueKey params = '''')" for e
  proof -
    have "getQuestions w ?p = Exit [ReadFile (template params), Failed (''Error: '' @ e)]"
      using that(1,2) by (simp add: getQuestions_def tp)
    then show ?thesis
      by (simp add: add_unfold [OF assms(1) ni] completer_def)
  qed
  show ?thesis using body same fatal by blast
qed

lemma parse_template:
  "parseArgsAndFlags terminal fullArgs (cliFlags t False False) = Inr (templateParams t)"
  by (simp add: parse_full templateParams_def)

lemma add_full_template:
  "add terminal (cliFlags ''/tmp/worklog.tmpl'' False False) fullArgs =
     Continue [ReadFile ''/tmp/worklog.tmpl'', Ask [getNextAction], Info ''Adding worklog'',
       AddIssueWorklog ''PROJ-1'' ''Did work'' ''2023-01-01T09:00:00.000+0100'' ''2h'',
       Success (''Worklog added to issue '' @ [CHR 0x22] @ ''PROJ-1'' @ [CHR 0x22]),
       Printf (''https://jira.example.com/browse/PROJ-1'' @ [CHR 0x0A])] ()"
  unfolding add_def parse_full
  by (simp add: run_defs sample_defs)

theorem explicit_comment_is_body_witness:
  "parseArgsAndFlags terminal fullArgs (cliFlags ''/tmp/worklog.tmpl'' False False) =
     Inr (templateParams ''/tmp/worklog.tmpl'') \<and>
   comment (templateParams ''/tmp/worklog.tmpl'') = ''Did work'' \<and>
   AddIssueWorklog ''PROJ-1'' ''Did work'' ''2023-01-01T09:00:00.000+0100'' ''2h''
     \<in> set (trace (add terminal (cliFlags ''/tmp/worklog.tmpl'' False False) fullArgs)) \<and>
   readFile terminal (template (templateParams ''/tmp/worklog.tmpl'')) = Inr ''From template'' \<and>
   add (terminal\<lparr>readFile := (\<lambda>path. Inr ''Other text'')\<rparr>)
       (cliFlags ''/tmp/worklog.tmpl'' False False) fullArgs =
     add terminal (cliFlags ''/tmp/worklog.tmpl'' False False) fullArgs \<and>
   readFile terminal (template (templateParams ''/tmp/missing.tmpl'')) =
     Inl ''open /tmp/missing.tmpl: no such file or directory'' \<and>
   add terminal (cliFlags ''/tmp/missing.tmpl'' False False) fullArgs =
     Exit [ReadFile ''/tmp/missing.tmpl'',
       Failed ''Error: open /tmp/missing.tmpl: no such file or directory'']"
proof -
  have c: "comment (templateParams t) \<noteq> ''''" for t by (simp add: templateParams_def)
  have c': "comment (templateParams ''/tmp/worklog.tmpl'') = ''Did work''"
    by (simp add: templateParams_def)
  have m: "AddIssueWorklog ''PROJ-1'' ''Did work'' ''2023-01-01T09:00:00.000+0100'' ''2h''
     \<in> set (trace (add terminal (cliFlags ''/tmp/worklog.tmpl'' False False) fullArgs))"
    by (simp add: add_full_template)
  have r1: "readFile terminal (template (templateParams ''/tmp/worklog.tmpl'')) = Inr ''From template''"
    by (simp add: templateParams_def terminal_def sampleFiles_def)
  have r2: "(\<lambda>path. Inr ''Other text'' :: err + string) (template (templateParams ''/tmp/worklog.tmpl'')) =
      Inr ''Other text''"
    by simp
  note T = explicit_comment_is_body [OF parse_template c]
  have same: "add (terminal\<lparr>readFile := (\<lambda>path. Inr ''Other text'')\<rparr>)
       (cliFlags ''/tmp/worklog.tmpl'' False False) fullArgs =
     add terminal (cliFlags ''/tmp/worklog.tmpl'' False False) fullArgs"
    using T [of "''/tmp/worklog.tmpl''", THEN conjunct2, THEN conjunct1, rule_format,
        of "''From template''" "\<lambda>path. Inr ''Other text''" "''Other text''"] r1
    by simp
  have r3: "readFile terminal (template (templateParams ''/tmp/missing.tmpl'')) =
     Inl ''open /tmp/missing.tmpl: no such file or directory''"
    by (simp add: templateParams_def terminal_def sampleFiles_def)
  have t3: "template (templateParams ''/tmp/missing.tmpl'') = ''/tmp/missing.tmpl''"
    and k3: "issueKey (templateParams ''/tmp/missing.tmpl'') \<noteq> ''''"
    by (simp_all add: templateParams_def)
  have fatal: "add terminal (cliFlags ''/tmp/missing.tmpl'' False False) fullArgs =
     Exit [ReadFile ''/tmp/missing.tmpl'',
       Failed ''Error: open /tmp/missing.tmpl: no such file or directory'']"
    using T [of "''/tmp/missing.tmpl''", THEN conjunct2, THEN conjunct2, rule_format,
        of "''open /tmp/missing.tmpl: no such file or directory''"] r3 t3 k3
    by simp
  show ?thesis using parse_template c' m r1 same r3 fatal by simp
qed

text \<open>
  Claim C9 describes what the flag's help text promises ("Disable prompt for non-required
  fields"), and the code departs from it: the early return of \<^verbatim>\<open>getQuestions\<close> under
  \<^verbatim>\<open>noInput\<close> is taken only when the comment is empty. With \<^verbatim>\<open>noInput\<close> set and a
  comment given, the questions for an empty started date and an empty started time are
  still generated.
\<close>

theorem noInput_with_comment_asks_start:
  assumes "noInput params" and "comment params \<noteq> ''''"
    and "startedDate params = ''''" and "startedTime params = ''''"
    and "getQuestions w params = Continue evs (qs, p)"
  shows "startedDateQuestion (nowDate w) \<in> set qs \<and> startedTimeQuestion (nowTime w) \<in> set qs"
  unfolding getQuestions_Continue [OF assms(5)] using assms(1-4) by simp

lemma getQuestions_noInputParams:
  "getQuestions terminal noInputParams =
     Continue [] ([startedDateQuestion ''2023-01-01'', startedTimeQuestion ''09:00''], noInputParams)"
  by (simp add: getQuestions_def noInputParams_def terminal_def)

theorem noInput_with_comment_asks_start_witness:
  "parseArgsAndFlags terminal [''PROJ-1'', ''2h'', ''Did work''] (cliFlags '''' True False) =
     Inr noInputParams \<and>
   \<not> isNonInteractive terminal noInputParams \<and>
   noInput noInputParams \<and> comment noInputParams = ''Did work'' \<and>
   startedDate noInputParams = '''' \<and> startedTime noInputParams = '''' \<and>
   getQuestions terminal noInputParams =
     Continue [] ([startedDateQuestion ''2023-01-01'', startedTimeQuestion ''09:00''], noInputParams) \<and>
   startedDateQuestion (nowDate terminal)
     \<in> set [startedDateQuestion ''2023-01-01'', startedTimeQuestion ''09:00''] \<and>
   startedTimeQuestion (nowTime terminal)
     \<in> set [startedDateQuestion ''2023-01-01'', startedTimeQuestion ''09:00'']"
proof -
  have p: "parseArgsAndFlags terminal [''PROJ-1'', ''2h'', ''Did work''] (cliFlags '''' True False) =
     Inr noInputParams"
    by (simp add: parseArgsAndFlags_def noInputParams_def sample_defs)
  have i: "\<not> isNonInteractive terminal noInputParams"
    by (simp add: isNonInteractive_def noInputParams_def terminal_def)
  have h1: "noInput noInputParams" and h2: "comment noInputParams \<noteq> ''''"
    and h2': "comment noInputParams = ''Did work''"
    and h3: "startedDate noInputParams = ''''" and h4: "startedTime noInputParams = ''''"
    by (simp_all add: noInputParams_def)
  show ?thesis
    using noInput_with_comment_asks_start [OF h1 h2 h3 h4 getQuestions_noInputParams]
      p i h1 h2' h3 h4 getQuestions_noInputParams
    by simp
qed

end
